theory Spec2Isabelle
  imports Complex_Main
begin

section \<open>OpenPlayer: captions, media facade, ads and fullscreen components\<close>

text \<open>
  A shallow embedding of the algorithmic and state-handling parts of the player:
  the cue lookup and the WebVTT reader of the captions component, the caption
  sanitiser, the media facade, the ads event handlers and the listener handling of
  the fullscreen control.  JavaScript numbers that hold times are reals (NaN and the
  infinities are left out), numbers that hold indices are integers, a thrown
  exception is a value of type \<open>js_error\<close>, and \<open>undefined\<close> is \<open>None\<close>.
\<close>

datatype js_error = TypeError string

subsection \<open>Cues and the cue lookup (\<open>Captions._search\<close>)\<close>

text \<open>
  The fields of a cue as \<open>_getCuesFromText\<close> and \<open>_getNativeCues\<close> build them.
  The identifier may be \<open>undefined\<close>; the settings are either the empty object or the
  object that \<open>JSON.parse\<close> returned, which is kept as its source text.
\<close>

datatype cue_settings = EmptyObject | Parsed string

record Cue =
  endTime :: real
  cue_identifier :: "string option"
  settings :: cue_settings
  startTime :: real
  cue_text :: string

text \<open>
  \<open>ToInt32\<close>, which the operator \<open>>>\<close> applies to its left operand: the value is
  reduced modulo \<open>2 ^ 32\<close> into the signed 32-bit range.
\<close>

definition to_int32 :: "int \<Rightarrow> int" where
  "to_int32 n = (n + 2 ^ 31) mod 2 ^ 32 - 2 ^ 31"

text \<open>
  Reading \<open>xs[i]\<close>: \<open>undefined\<close> outside the array.
\<close>

definition elem :: "'a list \<Rightarrow> int \<Rightarrow> 'a option" where
  "elem xs i = (if 0 \<le> i \<and> i < int (length xs) then Some (xs ! nat i) else None)"

text \<open>
  The \<open>while (low <= high)\<close> loop of \<open>_search\<close>.  \<open>(low + high) >> 1\<close> is the
  32-bit value of the sum shifted right arithmetically, that is its floor division
  by two.  Reading a field of \<open>tracks[mid]\<close> when it is \<open>undefined\<close> throws.  The
  source has three branches, \<open>return mid\<close>, \<open>start < currentTime\<close> and
  \<open>start > currentTime\<close>; when none of them applies the body changes nothing and
  the loop goes round with the same \<open>low\<close> and \<open>high\<close>.  A run that never leaves the
  loop has the value \<open>None\<close>.
\<close>

partial_function (option) search_loop ::
  "Cue list \<Rightarrow> real \<Rightarrow> int \<Rightarrow> int \<Rightarrow> (js_error + int) option" where
  "search_loop tracks currentTime low high =
     (if low \<le> high then
        (let mid = to_int32 (low + high) div 2 in
         case elem tracks mid of
           None \<Rightarrow> Some (Inl (TypeError ''tracks[mid] is undefined''))
         | Some c \<Rightarrow>
            (let start = startTime c; stop = endTime c in
             if currentTime \<ge> start \<and> currentTime < stop then Some (Inr mid)
             else if start < currentTime then search_loop tracks currentTime (mid + 1) high
             else if start > currentTime then search_loop tracks currentTime low (mid - 1)
             else search_loop tracks currentTime low high))
      else Some (Inr (- 1)))"

definition search :: "Cue list \<Rightarrow> real \<Rightarrow> (js_error + int) option" where
  "search tracks currentTime = search_loop tracks currentTime 0 (int (length tracks) - 1)"





text \<open>A cue with the given times and text, without identifier and settings.\<close>

definition plain_cue :: "real \<Rightarrow> real \<Rightarrow> string \<Rightarrow> Cue" where
  "plain_cue s e txt =
     \<lparr>endTime = e, cue_identifier = None, settings = EmptyObject, startTime = s,
      cue_text = txt\<rparr>"

subsection \<open>Levels and the media facade (\<open>Media\<close>)\<close>

text \<open>A value that is a string or a number.\<close>

datatype js_prim = Str string | Num real

text \<open>The interface \<open>Level\<close>: \<open>height\<close> and \<open>id\<close> are numbers, \<open>label\<close> a string or a number.\<close>

record Level =
  height :: real
  level_id :: real
  label :: js_prim

text \<open>A media file (\<open>Source\<close>): its address and its MIME type.\<close>

record Source =
  src :: string
  mime :: string

text \<open>A \<open><source>\<close> tag below the media element; \<open>getAttribute('type')\<close> may be \<open>null\<close>.\<close>

record SourceTag =
  tag_src :: string
  tag_type :: "string option"

datatype duration = Finite real | Infinity

text \<open>
  The media element, as far as the facade and the ads component read and write it.
  \<open>el_seekable\<close> lists the seekable ranges as pairs of start and end.
\<close>

record Element =
  el_src :: string
  el_type :: "string option"
  el_sources :: "SourceTag list"
  el_data_op_file :: "string option"
  el_volume :: real
  el_muted :: bool
  el_playbackRate :: real
  el_defaultPlaybackRate :: real
  el_currentTime :: real
  el_duration :: duration
  el_paused :: bool
  el_ended :: bool
  el_seekable :: "(real \<times> real) list"

datatype backend_kind = HTML5 | Hls | Dash | Flv | Custom string

text \<open>
  The playback backend that \<open>_invoke\<close> builds (\<open>HTML5Media\<close>, \<open>HlsMedia\<close>,
  \<open>DashMedia\<close>, \<open>FlvMedia\<close> or a custom one).  Their classes are outside the
  sources at hand; a backend is the record of the properties that the facade reads and
  assigns, an assignment stores the value, \<open>pause()\<close> and \<open>play()\<close> set \<open>paused\<close>,
  and \<open>destroy()\<close> is recorded in \<open>b_destroyed\<close>.
\<close>

record Backend =
  b_kind :: backend_kind
  b_media :: Source
  b_volume :: real
  b_muted :: bool
  b_playbackRate :: real
  b_defaultPlaybackRate :: real
  b_currentTime :: real
  b_duration :: duration
  b_paused :: bool
  b_ended :: bool
  b_level :: js_prim
  b_levels :: "Level list"
  b_src :: "Source option"
  b_destroyed :: bool

text \<open>
  What the facade takes from outside its class: the helpers of \<open>utils/media\<close>
  (\<open>predictType\<close>, \<open>isHlsSource\<close>, \<open>isDashSource\<close>, \<open>isFlvSource\<close>), the answer of
  the element and of a backend to \<open>canPlayType\<close>, and whether the constructor of a
  backend throws for a file.
\<close>

record media_env =
  predictType :: "string \<Rightarrow> string"
  isHlsSource :: "Source \<Rightarrow> bool"
  isDashSource :: "Source \<Rightarrow> bool"
  isFlvSource :: "Source \<Rightarrow> bool"
  element_canPlayType :: "string \<Rightarrow> bool"
  backend_canPlayType :: "backend_kind \<Rightarrow> string \<Rightarrow> bool"
  constructor_throws :: "backend_kind \<Rightarrow> Source \<Rightarrow> bool"

text \<open>
  The player options that \<open>_invoke\<close> reads, and the custom media registry: the names
  under \<open>customMedia.media\<close> and the rules, each of which maps an address to a name or
  to nothing.
\<close>

record media_options =
  layers :: "(string \<times> string list) list"
  forceNative :: bool

record custom_media =
  custom_names :: "string list"
  custom_rules :: "(string \<Rightarrow> string option) list"

text \<open>The private fields of \<open>Media\<close>; \<open>promisePlay\<close> records whether the field is set.\<close>

record Media =
  element :: Element
  media :: "Backend option"
  files :: "Source list"
  promisePlay :: bool
  options :: media_options
  autoplay :: bool
  mediaLoaded :: bool
  customMedia :: custom_media
  currentSrc :: "Source option"

text \<open>
  \<open>_getMediaFiles\<close>: the element's own \<open>src\<close> when it is not empty, then one entry
  for each \<open><source>\<close> tag, and a placeholder with an empty address when that leaves
  the list empty.  The second component is the value the loop leaves in
  \<open>currentSrc\<close>: it assigns \<open>mediaFiles[0]\<close> at the first tag.
\<close>

definition source_type :: "media_env \<Rightarrow> string option \<Rightarrow> string \<Rightarrow> string" where
  "source_type env attr address =
     (case attr of
        Some t \<Rightarrow> if t \<noteq> [] then t else predictType env address
      | None \<Rightarrow> predictType env address)"

definition getMediaFiles :: "media_env \<Rightarrow> Element \<Rightarrow> Source list \<times> Source option" where
  "getMediaFiles env el =
     (let nodeSource = el_src el;
          mediaFiles0 = (if nodeSource \<noteq> [] then
                           [\<lparr>src = nodeSource, mime = source_type env (el_type el) nodeSource\<rparr>]
                         else []);
          mediaFiles1 = mediaFiles0 @
             map (\<lambda>item. \<lparr>src = tag_src item,
                            mime = source_type env (tag_type item) (tag_src item)\<rparr>)
                 (el_sources el);
          current = (if el_sources el \<noteq> [] then Some (hd mediaFiles1) else None);
          mediaFiles2 = (if mediaFiles1 = [] then
                           [\<lparr>src = [], mime = predictType env []\<rparr>]
                         else mediaFiles1)
      in (mediaFiles2, current))"

text \<open>
  The constructor: every field is initialised, \<open>files\<close> from \<open>_getMediaFiles\<close>.
\<close>

definition new_Media ::
  "media_env \<Rightarrow> Element \<Rightarrow> media_options \<Rightarrow> bool \<Rightarrow> custom_media \<Rightarrow> Media" where
  "new_Media env el opts auto custom =
     (let (fs, cur) = getMediaFiles env el in
      \<lparr>element = el, media = None, files = fs, promisePlay = False, options = opts,
       autoplay = auto, mediaLoaded = False, customMedia = custom, currentSrc = cur\<rparr>)"

text \<open>
  A fresh backend for a file.  It wraps the element, so its properties start from
  the element's.
\<close>

definition new_Backend :: "backend_kind \<Rightarrow> Element \<Rightarrow> Source \<Rightarrow> Backend" where
  "new_Backend k el file =
     \<lparr>b_kind = k, b_media = file, b_volume = el_volume el, b_muted = el_muted el,
      b_playbackRate = el_playbackRate el,
      b_defaultPlaybackRate = el_defaultPlaybackRate el,
      b_currentTime = el_currentTime el, b_duration = el_duration el,
      b_paused = el_paused el, b_ended = el_ended el, b_level = Num (- 1),
      b_levels = [], b_src = None, b_destroyed = False\<rparr>"

text \<open>
  \<open>_invoke\<close> chooses the backend for a file and stores the file in \<open>currentSrc\<close>.
  With custom media registered, the last rule that answers with a name decides; a
  name that is not registered makes the call of \<open>customMedia.media[type]\<close> throw.
  The result is the kind chosen, or \<open>None\<close> when \<open>_invoke\<close> throws.
\<close>

definition activeLevels :: "media_options \<Rightarrow> bool" where
  "activeLevels opts \<longleftrightarrow> (\<exists>layer \<in> set (layers opts). ''levels'' \<in> set (snd layer))"

fun custom_choice ::
  "string list \<Rightarrow> (string \<Rightarrow> string option) list \<Rightarrow> string \<Rightarrow> string option
     \<Rightarrow> string option option" where
  "custom_choice names [] address customRef = Some customRef"
| "custom_choice names (rule # rules) address customRef =
     (case rule address of
        None \<Rightarrow> custom_choice names rules address customRef
      | Some t \<Rightarrow>
          if t = [] then custom_choice names rules address customRef
          else if t \<in> set names then custom_choice names rules address (Some t)
          else None)"

definition invoke_kind :: "media_env \<Rightarrow> Media \<Rightarrow> Source \<Rightarrow> backend_kind option" where
  "invoke_kind env m file =
     (let playHLSNatively = (element_canPlayType env ''application/vnd.apple.mpegurl'' \<or>
                             element_canPlayType env ''application/x-mpegURL'');
          chosen =
            (if custom_names (customMedia m) \<noteq> [] then
               (case custom_choice (custom_names (customMedia m))
                       (custom_rules (customMedia m)) (src file) None of
                  None \<Rightarrow> None
                | Some None \<Rightarrow> Some HTML5
                | Some (Some t) \<Rightarrow> Some (Custom t))
             else if isHlsSource env file then
               (if playHLSNatively \<and> forceNative (options m) \<and> \<not> activeLevels (options m)
                then Some HTML5 else Some Hls)
             else if isDashSource env file then Some Dash
             else if isFlvSource env file then Some Flv
             else Some HTML5)
      in case chosen of
           None \<Rightarrow> None
         | Some k \<Rightarrow> if constructor_throws env k file then None else Some k)"

text \<open>
  The callback that \<open>load\<close> passes to \<open>files.some\<close>: the backend of \<open>_invoke\<close>, or an
  \<open>HTML5Media\<close> when \<open>_invoke\<close> throws; the walk stops at the first file whose
  backend can play the file's type.
\<close>

definition load_one :: "media_env \<Rightarrow> Media \<Rightarrow> Source \<Rightarrow> Media" where
  "load_one env m file =
     (let k = (case invoke_kind env m file of Some k \<Rightarrow> k | None \<Rightarrow> HTML5)
      in m\<lparr>media := Some (new_Backend k (element m) file), currentSrc := Some file\<rparr>)"

fun load_some :: "media_env \<Rightarrow> Media \<Rightarrow> Source list \<Rightarrow> Media" where
  "load_some env m [] = m"
| "load_some env m (file # rest) =
     (let m' = load_one env m file in
      if backend_canPlayType env (case media m' of Some b \<Rightarrow> b_kind b | None \<Rightarrow> HTML5)
           (mime file)
      then m' else load_some env m' rest)"

text \<open>
  The result of a method that may throw: the exception, if any, and the state that
  the method leaves behind, which keeps the assignments made before the throw.
\<close>

type_synonym 'a outcome = "js_error option \<times> 'a"

text \<open>
  \<open>load\<close>.  With an empty \<open>files\<close> it throws at once.  Otherwise a backend that is
  already there is destroyed unless it plays the single file of the list, the files
  are walked, and the load of the chosen backend is chained to its promise.  The test
  \<open>media === null\<close> cannot hold after the walk over a list that is not empty.
\<close>

definition load :: "media_env \<Rightarrow> Media \<Rightarrow> Media outcome" where
  "load env m =
     (if files m = [] then (Some (TypeError ''Media not set''), m)
      else
        (let m1 = (case media m of
                     None \<Rightarrow> m
                   | Some b \<Rightarrow>
                       (let sameMedia = (length (files m) = 1 \<and>
                                         src (hd (files m)) = src (b_media b))
                        in if \<not> sameMedia then m\<lparr>media := Some (b\<lparr>b_destroyed := True\<rparr>)\<rparr>
                           else m))
         in (None, load_some env m1 (files m1))))"

text \<open>\<open>canPlayType\<close> asks the backend; without a backend the property read throws.\<close>

definition canPlayType :: "media_env \<Rightarrow> Media \<Rightarrow> string \<Rightarrow> js_error + bool" where
  "canPlayType env m mimeType =
     (case media m of
        None \<Rightarrow> Inl (TypeError ''media is undefined'')
      | Some b \<Rightarrow> Inr (backend_canPlayType env (b_kind b) mimeType))"

text \<open>
  \<open>play\<close>: a facade that is not yet loaded loads first (and the error of \<open>load\<close>
  leaves \<open>loaded\<close> set); the backend then plays.  On a loaded facade the backend
  plays and \<open>promisePlay\<close> is set.
\<close>

definition backend_play :: "Media \<Rightarrow> Media outcome" where
  "backend_play m =
     (case media m of
        None \<Rightarrow> (Some (TypeError ''media is undefined''), m)
      | Some b \<Rightarrow> (None, m\<lparr>media := Some (b\<lparr>b_paused := False\<rparr>)\<rparr>))"

definition play :: "media_env \<Rightarrow> Media \<Rightarrow> Media outcome" where
  "play env m =
     (if \<not> mediaLoaded m then
        (case load env (m\<lparr>mediaLoaded := True\<rparr>) of
           (Some e, m') \<Rightarrow> (Some e, m')
         | (None, m') \<Rightarrow> backend_play m')
      else
        (case backend_play m of
           (Some e, m') \<Rightarrow> (Some e, m')
         | (None, m') \<Rightarrow> (None, m'\<lparr>promisePlay := True\<rparr>)))"

text \<open>
  \<open>pause\<close>: with \<open>promisePlay\<close> set the pause of the backend is chained to that
  promise, which is always fulfilled, and runs before the next event is handled; an
  exception inside the chained call is not thrown to the caller.  Without it the
  backend is paused in the call.
\<close>

definition pause :: "Media \<Rightarrow> Media outcome" where
  "pause m =
     (case media m of
        None \<Rightarrow> (if promisePlay m then (None, m)
                 else (Some (TypeError ''media is undefined''), m))
      | Some b \<Rightarrow> (None, m\<lparr>media := Some (b\<lparr>b_paused := True\<rparr>)\<rparr>))"

definition destroy :: "Media \<Rightarrow> Media outcome" where
  "destroy m =
     (case media m of
        None \<Rightarrow> (Some (TypeError ''media is undefined''), m)
      | Some b \<Rightarrow> (None, m\<lparr>media := Some (b\<lparr>b_destroyed := True\<rparr>)\<rparr>))"

text \<open>
  The setter of \<open>src\<close> takes an address, a list of files or one file.  It first
  changes \<open>files\<close>, then asks \<open>canPlayType\<close> for the files in turn until one can be
  played, and then reads \<open>files[0]\<close>.
\<close>

datatype src_value = SrcString string | SrcArray "Source list" | SrcObject Source

fun some_canPlayType :: "media_env \<Rightarrow> Media \<Rightarrow> Source list \<Rightarrow> js_error option" where
  "some_canPlayType env m [] = None"
| "some_canPlayType env m (file # rest) =
     (case canPlayType env m (mime file) of
        Inl e \<Rightarrow> Some e
      | Inr True \<Rightarrow> None
      | Inr False \<Rightarrow> some_canPlayType env m rest)"

definition set_src :: "media_env \<Rightarrow> src_value \<Rightarrow> Media \<Rightarrow> Media outcome" where
  "set_src env v m =
     (let m1 = (case v of
                  SrcString s \<Rightarrow> m\<lparr>files := files m @ [\<lparr>src = s, mime = predictType env s\<rparr>]\<rparr>
                | SrcArray fs \<Rightarrow> m\<lparr>files := fs\<rparr>
                | SrcObject f \<Rightarrow> m\<lparr>files := files m @ [f]\<rparr>)
      in case some_canPlayType env m1 (files m1) of
           Some e \<Rightarrow> (Some e, m1)
         | None \<Rightarrow>
            (case files m1 of
               [] \<Rightarrow> (Some (TypeError ''files[0] is undefined''), m1)
             | f # _ \<Rightarrow>
                (let el = element m1;
                     el1 = (if el_src el \<noteq> [] then el\<lparr>el_data_op_file := Some (src f)\<rparr> else el);
                     m2 = m1\<lparr>element := el1\<lparr>el_src := src f\<rparr>\<rparr>
                 in case media m2 of
                      None \<Rightarrow> (Some (TypeError ''media is undefined''), m2)
                    | Some b \<Rightarrow>
                        (None, m2\<lparr>media := Some (b\<lparr>b_src := Some f\<rparr>),
                                  currentSrc := Some f\<rparr>))))"

definition get_src :: "Media \<Rightarrow> Source list" where
  "get_src m = files m"

definition current :: "Media \<Rightarrow> Source option" where
  "current m = currentSrc m"

definition set_mediaFiles :: "Source list \<Rightarrow> Media \<Rightarrow> Media" where
  "set_mediaFiles sources m = m\<lparr>files := sources\<rparr>"

definition get_mediaFiles :: "Media \<Rightarrow> Source list" where
  "get_mediaFiles m = files m"

text \<open>
  The accessors that forward to the backend.  Every setter does nothing without a
  backend; every getter then reads the element, except \<open>level\<close>, \<open>levels\<close> and
  \<open>instance\<close>, which have a fixed answer.
\<close>

definition set_volume :: "real \<Rightarrow> Media \<Rightarrow> Media" where
  "set_volume v m =
     (case media m of Some b \<Rightarrow> m\<lparr>media := Some (b\<lparr>b_volume := v\<rparr>)\<rparr> | None \<Rightarrow> m)"

definition get_volume :: "Media \<Rightarrow> real" where
  "get_volume m = (case media m of Some b \<Rightarrow> b_volume b | None \<Rightarrow> el_volume (element m))"

definition set_muted :: "bool \<Rightarrow> Media \<Rightarrow> Media" where
  "set_muted v m =
     (case media m of Some b \<Rightarrow> m\<lparr>media := Some (b\<lparr>b_muted := v\<rparr>)\<rparr> | None \<Rightarrow> m)"

definition get_muted :: "Media \<Rightarrow> bool" where
  "get_muted m = (case media m of Some b \<Rightarrow> b_muted b | None \<Rightarrow> el_muted (element m))"

definition set_playbackRate :: "real \<Rightarrow> Media \<Rightarrow> Media" where
  "set_playbackRate v m =
     (case media m of Some b \<Rightarrow> m\<lparr>media := Some (b\<lparr>b_playbackRate := v\<rparr>)\<rparr> | None \<Rightarrow> m)"

definition get_playbackRate :: "Media \<Rightarrow> real" where
  "get_playbackRate m =
     (case media m of Some b \<Rightarrow> b_playbackRate b | None \<Rightarrow> el_playbackRate (element m))"

definition set_defaultPlaybackRate :: "real \<Rightarrow> Media \<Rightarrow> Media" where
  "set_defaultPlaybackRate v m =
     (case media m of
        Some b \<Rightarrow> m\<lparr>media := Some (b\<lparr>b_defaultPlaybackRate := v\<rparr>)\<rparr>
      | None \<Rightarrow> m)"

definition get_defaultPlaybackRate :: "Media \<Rightarrow> real" where
  "get_defaultPlaybackRate m =
     (case media m of
        Some b \<Rightarrow> b_defaultPlaybackRate b
      | None \<Rightarrow> el_defaultPlaybackRate (element m))"

definition set_currentTime :: "real \<Rightarrow> Media \<Rightarrow> Media" where
  "set_currentTime v m =
     (case media m of Some b \<Rightarrow> m\<lparr>media := Some (b\<lparr>b_currentTime := v\<rparr>)\<rparr> | None \<Rightarrow> m)"

definition get_currentTime :: "Media \<Rightarrow> real" where
  "get_currentTime m =
     (case media m of Some b \<Rightarrow> b_currentTime b | None \<Rightarrow> el_currentTime (element m))"

definition get_duration :: "Media \<Rightarrow> duration" where
  "get_duration m =
     (let d = (case media m of Some b \<Rightarrow> b_duration b | None \<Rightarrow> el_duration (element m))
      in if d = Infinity \<and> el_seekable (element m) \<noteq> []
         then Finite (snd (hd (el_seekable (element m)))) else d)"

definition get_paused :: "Media \<Rightarrow> bool" where
  "get_paused m = (case media m of Some b \<Rightarrow> b_paused b | None \<Rightarrow> el_paused (element m))"

definition get_ended :: "Media \<Rightarrow> bool" where
  "get_ended m = (case media m of Some b \<Rightarrow> b_ended b | None \<Rightarrow> el_ended (element m))"

definition set_loaded :: "bool \<Rightarrow> Media \<Rightarrow> Media" where
  "set_loaded v m = m\<lparr>mediaLoaded := v\<rparr>"

definition get_loaded :: "Media \<Rightarrow> bool" where
  "get_loaded m = mediaLoaded m"

definition set_level :: "js_prim \<Rightarrow> Media \<Rightarrow> Media" where
  "set_level v m =
     (case media m of Some b \<Rightarrow> m\<lparr>media := Some (b\<lparr>b_level := v\<rparr>)\<rparr> | None \<Rightarrow> m)"

definition get_level :: "Media \<Rightarrow> js_prim" where
  "get_level m = (case media m of Some b \<Rightarrow> b_level b | None \<Rightarrow> Num (- 1))"

definition get_levels :: "Media \<Rightarrow> Level list" where
  "get_levels m = (case media m of Some b \<Rightarrow> b_levels b | None \<Rightarrow> [])"

definition get_instance :: "Media \<Rightarrow> backend_kind option" where
  "get_instance m = (case media m of Some b \<Rightarrow> Some (b_kind b) | None \<Rightarrow> None)"

text \<open>
  The operations a caller has on a facade once it is built, and a run of them from
  the constructor.  An operation that throws leaves its state behind and the run
  goes on, as a caller that catches the exception would.
\<close>

datatype media_op =
    Load | Play | Pause | Destroy
  | SetSrc src_value | SetMediaFiles "Source list"
  | SetVolume real | SetMuted bool | SetPlaybackRate real | SetDefaultPlaybackRate real
  | SetCurrentTime real | SetLoaded bool | SetLevel js_prim

fun apply_media_op :: "media_env \<Rightarrow> media_op \<Rightarrow> Media \<Rightarrow> Media outcome" where
  "apply_media_op env Load m = load env m"
| "apply_media_op env Play m = play env m"
| "apply_media_op env Pause m = pause m"
| "apply_media_op env Destroy m = destroy m"
| "apply_media_op env (SetSrc v) m = set_src env v m"
| "apply_media_op env (SetMediaFiles fs) m = (None, set_mediaFiles fs m)"
| "apply_media_op env (SetVolume v) m = (None, set_volume v m)"
| "apply_media_op env (SetMuted v) m = (None, set_muted v m)"
| "apply_media_op env (SetPlaybackRate v) m = (None, set_playbackRate v m)"
| "apply_media_op env (SetDefaultPlaybackRate v) m = (None, set_defaultPlaybackRate v m)"
| "apply_media_op env (SetCurrentTime v) m = (None, set_currentTime v m)"
| "apply_media_op env (SetLoaded v) m = (None, set_loaded v m)"
| "apply_media_op env (SetLevel v) m = (None, set_level v m)"

fun run_media_ops :: "media_env \<Rightarrow> media_op list \<Rightarrow> Media \<Rightarrow> Media" where
  "run_media_ops env [] m = m"
| "run_media_ops env (op # ops) m = run_media_ops env ops (snd (apply_media_op env op m))"

text \<open>
  Sample surroundings for concrete runs: helpers that recognise no streaming
  format, a backend that plays every type, and a bare \<open><video>\<close> element without
  \<open>src\<close> and without \<open><source>\<close> tags.
\<close>

definition sample_env :: media_env where
  "sample_env =
     \<lparr>predictType = (\<lambda>_. ''video/mp4''), isHlsSource = (\<lambda>_. False),
      isDashSource = (\<lambda>_. False), isFlvSource = (\<lambda>_. False),
      element_canPlayType = (\<lambda>_. False), backend_canPlayType = (\<lambda>_ _. True),
      constructor_throws = (\<lambda>_ _. False)\<rparr>"

definition bare_element :: Element where
  "bare_element =
     \<lparr>el_src = [], el_type = None, el_sources = [], el_data_op_file = None,
      el_volume = 1, el_muted = False, el_playbackRate = 1, el_defaultPlaybackRate = 1,
      el_currentTime = 0, el_duration = Finite 0, el_paused = True, el_ended = False,
      el_seekable = []\<rparr>"

definition sample_options :: media_options where
  "sample_options = \<lparr>layers = [], forceNative = True\<rparr>"

definition no_custom_media :: custom_media where
  "no_custom_media = \<lparr>custom_names = [], custom_rules = []\<rparr>"

definition bare_media :: Media where
  "bare_media = new_Media sample_env bare_element sample_options False no_custom_media"

subsection \<open>The WebVTT reader (\<open>Captions._getCuesFromText\<close>)\<close>





































subsection \<open>The ads component (\<open>Ads\<close>)\<close>

text \<open>
  What the component does to the world outside its fields, in the order it does it:
  events dispatched on the media element, calls of the ad SDK, requests for ads,
  console output, changes of the page and calls of methods of the media facade.
\<close>

datatype ad_event_type =
    ALL_ADS_COMPLETED | CLICK | VIDEO_CLICKED | VIDEO_ICON_CLICKED | AD_PROGRESS
  | AD_BUFFERING | IMPRESSION | DURATION_CHANGE | USER_CLOSE | LINEAR_CHANGED
  | SKIPPABLE_STATE_CHANGED | AD_METADATA | INTERACTION | COMPLETE | FIRST_QUARTILE
  | LOADED | MIDPOINT | PAUSED | RESUMED | STARTED | THIRD_QUARTILE | SKIPPED
  | VOLUME_CHANGED | VOLUME_MUTED | LOG | AD_BREAK_READY

datatype effect =
    Dispatch string
  | DispatchAds ad_event_type
  | Sdk string
  | Request "string option"
  | Console string
  | Dom string
  | MediaCall string

text \<open>
  The listeners that the component puts on the media element, and work that it
  leaves for later: the chain of \<open>_resumeMedia\<close> (with the value that \<open>media.ended\<close>
  had), the retry of \<open>_loadedMetadataHandler\<close>, the interval started at \<open>STARTED\<close>,
  and the \<open>load\<close> that the constructor chains to the SDK script.
\<close>

datatype element_listener =
    ResizeAds | ContentLoadedAction | LoadedMetadataHandler | ContentEndedListener

datatype pending = Resume bool | MetadataRetry | Interval nat | SdkReady

text \<open>The event for which the component registers each of its listeners.\<close>

fun event_of :: "element_listener \<Rightarrow> string" where
  "event_of ResizeAds = ''loadedmetadata''"
| "event_of ContentLoadedAction = ''loadedmetadata''"
| "event_of LoadedMetadataHandler = ''loadedmetadata''"
| "event_of ContentEndedListener = ''ended''"

datatype ads_source = AdTag string | AdTags "string list"

record platform =
  IS_IOS :: bool
  IS_ANDROID :: bool
  IS_IPHONE :: bool

record ads_options =
  autoPlayAdBreaks :: bool
  customClick_enabled :: bool
  enablePreloading :: bool
  loop :: bool

text \<open>
  The private fields of \<open>Ads\<close>.  The fields that hold an object of the SDK or of
  the page record whether the object is there.  \<open>ads_media\<close> is the facade that
  \<open>player.getMedia()\<close> returns; the media element of \<open>player.getElement()\<close> is the
  element inside that facade.  \<open>manager_events\<close> are the event types for which
  \<open>_assign\<close> is registered on the ads manager, \<open>listeners_on_element\<close> the listeners
  of the component on the media element in the order of their registration,
  \<open>manager_volume\<close> the answer of \<open>adsManager.getVolume()\<close>, \<open>ads_active_class\<close> the
  class \<open>op-ads--active\<close> on the parent of the element.
\<close>

record Ads =
  adsEnded :: bool
  adsDone :: bool
  adsActive :: bool
  adsStarted :: bool
  intervalTimer :: nat
  adsVolume :: real
  adsMuted :: bool
  adsDuration :: real
  adsCurrentTime :: real
  adsManager :: bool
  ads_media :: Media
  events :: "ad_event_type list"
  ads :: ads_source
  adsLoader :: bool
  adsContainer :: bool
  adsCustomClickContainer :: bool
  adDisplayContainer :: bool
  autoStart :: bool
  autoStartMuted :: bool
  playTriggered :: bool
  adsOptions :: ads_options
  currentAdsIndex :: int
  originalVolume :: real
  preloadContent :: bool
  lastTimePaused :: real
  mediaSources :: "Source list"
  mediaStarted :: bool
  platform :: platform
  has_parent :: bool
  ads_active_class :: bool
  manager_events :: "ad_event_type list"
  manager_volume :: real
  listeners_on_element :: "element_listener list"
  timers :: "pending list"
  next_timer :: nat
  log :: "effect list"

definition emit :: "effect \<Rightarrow> Ads \<Rightarrow> Ads" where
  "emit e s = s\<lparr>log := log s @ [e]\<rparr>"

definition ads_element :: "Ads \<Rightarrow> Element" where
  "ads_element s = element (ads_media s)"

text \<open>Running the next method unless the one before threw.\<close>

definition and_then :: "'s outcome \<Rightarrow> ('s \<Rightarrow> 's outcome) \<Rightarrow> 's outcome" where
  "and_then r f = (case r of (Some e, s) \<Rightarrow> (Some e, s) | (None, s) \<Rightarrow> f s)"

definition ok :: "'s \<Rightarrow> 's outcome" where
  "ok s = (None, s)"

definition throw :: "string \<Rightarrow> 's \<Rightarrow> 's outcome" where
  "throw msg s = (Some (TypeError msg), s)"

text \<open>A method of the facade called on \<open>ads_media\<close>, under its name.\<close>

definition on_media :: "string \<Rightarrow> (Media \<Rightarrow> Media outcome) \<Rightarrow> Ads \<Rightarrow> Ads outcome" where
  "on_media name f s =
     (case f (ads_media s) of
        (e, m) \<Rightarrow> (e, (emit (MediaCall name) s)\<lparr>ads_media := m\<rparr>))"

text \<open>The constructor.\<close>

definition new_Ads ::
  "platform \<Rightarrow> Media \<Rightarrow> ads_source \<Rightarrow> bool \<Rightarrow> bool \<Rightarrow> ads_options \<Rightarrow> bool \<Rightarrow> Ads" where
  "new_Ads pf m source auto autoMuted opts parent =
     \<lparr>adsEnded = False, adsDone = False, adsActive = False, adsStarted = False,
      intervalTimer = 0, adsVolume = el_volume (element m), adsMuted = False,
      adsDuration = 0, adsCurrentTime = 0, adsManager = False, ads_media = m,
      events = [], ads = source, adsLoader = False, adsContainer = False,
      adsCustomClickContainer = False, adDisplayContainer = False, autoStart = auto,
      autoStartMuted = autoMuted, playTriggered = False, adsOptions = opts,
      currentAdsIndex = 0, originalVolume = el_volume (element m),
      preloadContent = False, lastTimePaused = 0, mediaSources = [],
      mediaStarted = False, platform = pf, has_parent = parent,
      ads_active_class = False, manager_events = [], manager_volume = 1,
      listeners_on_element = [], timers = [SdkReady], next_timer = 1, log = []\<rparr>"

text \<open>\<open>resizeAds\<close> only asks the manager, when there is one, to resize.\<close>

definition resizeAds :: "Ads \<Rightarrow> Ads" where
  "resizeAds s = (if adsManager s then emit (Sdk ''adsManager.resize'') s else s)"

definition setMediaVolume :: "real \<Rightarrow> Ads \<Rightarrow> Ads" where
  "setMediaVolume volume s =
     s\<lparr>ads_media := set_muted (volume = 0) (set_volume volume (ads_media s))\<rparr>"

text \<open>
  \<open>_requestAds\<close> asks the loader for the current tag: the entry of the array at
  \<open>currentAdsIndex\<close> (\<open>undefined\<close> outside the array) or the single tag.
\<close>

definition current_tag :: "Ads \<Rightarrow> string option" where
  "current_tag s =
     (case ads s of AdTags tags \<Rightarrow> elem tags (currentAdsIndex s) | AdTag tag \<Rightarrow> Some tag)"

definition requestAds :: "Ads \<Rightarrow> Ads outcome" where
  "requestAds s =
     (if adsLoader s then ok (emit (Request (current_tag s)) s)
      else throw ''adsLoader is undefined'' s)"

definition contentLoadedAction :: "Ads \<Rightarrow> Ads outcome" where
  "contentLoadedAction s =
     requestAds (if preloadContent s then s\<lparr>preloadContent := False\<rparr> else s)"

definition initNotDoneAds :: "Ads \<Rightarrow> Ads outcome" where
  "initNotDoneAds s0 =
     (let s1 = s0\<lparr>adsDone := True\<rparr> in
      if \<not> adDisplayContainer s1 then throw ''adDisplayContainer is undefined'' s1
      else
        (let s2 = emit (Sdk ''adDisplayContainer.initialize'') s1 in
         if IS_IOS (platform s2) \<or> IS_ANDROID (platform s2) then
           ok (emit (Dom ''element.load'')
                 (s2\<lparr>preloadContent := True,
                     listeners_on_element := listeners_on_element s2 @
                        [ContentLoadedAction]\<rparr>))
         else contentLoadedAction s2))"

definition contentEndedListener :: "Ads \<Rightarrow> Ads outcome" where
  "contentEndedListener s0 =
     (let s1 = s0\<lparr>adsEnded := True, adsActive := False, adsStarted := False\<rparr> in
      if adsLoader s1 then ok (emit (Sdk ''adsLoader.contentComplete'') s1)
      else throw ''adsLoader is undefined'' s1)"

definition resetAdsAfterManualBreak :: "Ads \<Rightarrow> Ads outcome" where
  "resetAdsAfterManualBreak s0 =
     (let s1 = (if adsManager s0 then emit (Sdk ''adsManager.destroy'') s0 else s0) in
      if adsLoader s1 then
        ok ((emit (Sdk ''adsLoader.contentComplete'') s1)\<lparr>adsDone := False, playTriggered := True\<rparr>)
      else throw ''adsLoader is undefined'' s1)"

text \<open>
  \<open>_resumeMedia\<close> resets the fields of the break and leaves the chain
  \<open>waitPromise(50, media.ended).then(play).catch(ended)\<close> behind.
\<close>

definition resumeMedia :: "Ads \<Rightarrow> Ads" where
  "resumeMedia s0 =
     (let s1 = s0\<lparr>intervalTimer := 0, adsMuted := False, adsStarted := False,
                  adsDuration := 0, adsCurrentTime := 0\<rparr>;
          s2 = (if has_parent s1 then s1\<lparr>ads_active_class := False\<rparr> else s1)
      in s2\<lparr>timers := timers s2 @ [Resume (get_ended (ads_media s2))]\<rparr>)"

definition prepareMedia :: "Ads \<Rightarrow> Ads" where
  "prepareMedia s =
     resumeMedia (s\<lparr>ads_media := set_currentTime (lastTimePaused s) (ads_media s)\<rparr>)"

definition loadedMetadataHandler :: "Ads \<Rightarrow> Ads outcome" where
  "loadedMetadataHandler s0 =
     (case ads s0 of
        AdTags tags \<Rightarrow>
          (let s1 = s0\<lparr>currentAdsIndex := currentAdsIndex s0 + 1\<rparr> in
           if currentAdsIndex s1 \<le> int (length tags) - 1 then
             (let s2 = (if adsManager s1 then emit (Sdk ''adsManager.destroy'') s1 else s1) in
              if adsLoader s2 then
                requestAds ((emit (Sdk ''adsLoader.contentComplete'') s2)
                               \<lparr>playTriggered := True, adsStarted := True, adsDone := False\<rparr>)
              else throw ''adsLoader is undefined'' s2)
           else
             and_then (if \<not> autoPlayAdBreaks (adsOptions s1) then resetAdsAfterManualBreak s1
                       else ok s1)
               (\<lambda>s. ok (prepareMedia s)))
      | AdTag tag \<Rightarrow>
          (case el_seekable (ads_element s0) of
             [] \<Rightarrow> ok (s0\<lparr>timers := timers s0 @ [MetadataRetry]\<rparr>)
           | first_range # _ \<Rightarrow>
               if snd first_range > lastTimePaused s0 then
                 and_then (if \<not> autoPlayAdBreaks (adsOptions s0)
                           then resetAdsAfterManualBreak s0 else ok s0)
                   (\<lambda>s. ok (prepareMedia s))
               else ok s0))"

text \<open>
  \<open>dispatchEvent\<close> on the media element runs the listeners that are registered for
  the event when the dispatch starts, in the order of their registration
  (\<open>run_listeners\<close>).  An
  exception in a listener is reported by the browser and does not reach the caller
  of \<open>dispatchEvent\<close>; the listeners after it still run.  Listeners of other
  components are not part of this component.
\<close>

definition run_listener :: "element_listener \<Rightarrow> Ads \<Rightarrow> Ads" where
  "run_listener l s =
     (case l of
        ResizeAds \<Rightarrow> resizeAds s
      | ContentLoadedAction \<Rightarrow> snd (contentLoadedAction s)
      | LoadedMetadataHandler \<Rightarrow> snd (loadedMetadataHandler s)
      | ContentEndedListener \<Rightarrow> snd (contentEndedListener s))"

definition run_listeners :: "string \<Rightarrow> Ads \<Rightarrow> Ads" where
  "run_listeners name s =
     fold run_listener (filter (\<lambda>l. event_of l = name) (listeners_on_element s)) s"

definition dispatchEvent :: "string \<Rightarrow> Ads \<Rightarrow> Ads" where
  "dispatchEvent name s = run_listeners name (emit (Dispatch name) s)"

text \<open>
  \<open>destroy\<close>.  Every \<open>removeEventListener\<close> in it, except those for the mouse
  events of the controls, is given a function made on the spot by \<open>bind\<close> or by an
  arrow function and so removes nothing.  The \<open>forEach\<close> over \<open>events\<close> reads
  \<open>adsManager\<close>, which throws when there are events and no manager.
\<close>

definition ads_destroy :: "Ads \<Rightarrow> Ads outcome" where
  "ads_destroy s0 =
     (if events s0 \<noteq> [] \<and> \<not> adsManager s0 then throw ''adsManager is null'' s0
      else
        (let s1 = s0\<lparr>events := []\<rparr>;
             destroy = (case ads s1 of
                          AdTags tags \<Rightarrow> currentAdsIndex s1 > int (length tags)
                        | AdTag _ \<Rightarrow> True);
             s2 = (if adsManager s1 \<and> destroy then emit (Sdk ''adsManager.destroy'') s1 else s1);
             s3 = (if customClick_enabled (adsOptions s2)
                   then emit (Dom ''remove custom click container'') s2
                   else s2)
         in ok (emit (Dom ''remove ads container'') s3)))"

text \<open>
  \<open>load\<close>, with its argument \<open>force\<close>.  Of its work on the page the model keeps
  the new containers and the listener for \<open>loadedmetadata\<close> on the media element.
\<close>

definition ads_load :: "bool \<Rightarrow> Ads \<Rightarrow> Ads outcome" where
  "ads_load force s0 =
     (if \<not> autoPlayAdBreaks (adsOptions s0) \<and> \<not> force then ok s0
      else
        (let s1 = (emit (Dom ''create ads container'') s0)
                     \<lparr>adsStarted := True, adsContainer := True\<rparr>;
             s2 = (if customClick_enabled (adsOptions s1)
                   then (emit (Dom ''create custom click container'') s1)
                          \<lparr>adsCustomClickContainer := True\<rparr>
                   else s1);
             s3 = s2\<lparr>mediaSources := get_src (ads_media s2)\<rparr>;
             s4 = (emit (Sdk ''new AdsLoader'') (emit (Sdk ''new AdDisplayContainer'') s3))
                     \<lparr>adDisplayContainer := True, adsLoader := True,
                      listeners_on_element := listeners_on_element s3 @
                         [ResizeAds]\<rparr>
         in if autoStart s4 \<or> autoStartMuted s4 \<or> force \<or> enablePreloading (adsOptions s4)
            then
              requestAds (if \<not> adsDone s4
                          then (emit (Sdk ''adDisplayContainer.initialize'') s4)\<lparr>adsDone := True\<rparr>
                          else s4)
            else ok s4))"

text \<open>The public methods \<open>play\<close> (its body runs in a promise) and \<open>pause\<close>.\<close>

definition ads_play :: "Ads \<Rightarrow> Ads outcome" where
  "ads_play s =
     (if \<not> adsDone s then initNotDoneAds s
      else if adsManager s then
        ok (emit (Dispatch ''play'')
              ((emit (Sdk (if intervalTimer s = 0 \<and> \<not> adsActive s
                           then ''adsManager.start'' else ''adsManager.resume'')) s)
                 \<lparr>adsActive := True\<rparr>))
      else ok s)"

definition ads_pause :: "Ads \<Rightarrow> Ads" where
  "ads_pause s =
     (if adsManager s then
        emit (Dispatch ''pause'') ((emit (Sdk ''adsManager.pause'') s)\<lparr>adsActive := False\<rparr>)
      else s)"

text \<open>The handlers of \<open>CONTENT_PAUSE_REQUESTED\<close> and \<open>CONTENT_RESUME_REQUESTED\<close>.\<close>

definition onContentPauseRequested :: "Ads \<Rightarrow> Ads outcome" where
  "onContentPauseRequested s0 =
     (let s1 = s0\<lparr>lastTimePaused := get_currentTime (ads_media s0)\<rparr> in
      and_then (if adsStarted s1 then on_media ''pause'' pause s1 else ok (s1\<lparr>adsStarted := True\<rparr>))
        (\<lambda>s. ok (dispatchEvent ''play'' s)))"

definition onContentResumeRequested :: "media_env \<Rightarrow> Ads \<Rightarrow> Ads outcome" where
  "onContentResumeRequested env s0 =
     (if loop (adsOptions s0) then
        (let s1 = (case ads s0 of
                     AdTags tags \<Rightarrow>
                       if currentAdsIndex s0 = int (length tags) - 1
                       then s0\<lparr>currentAdsIndex := 0\<rparr>
                       else s0\<lparr>currentAdsIndex := currentAdsIndex s0 + 1\<rparr>
                   | AdTag _ \<Rightarrow> s0)
         in and_then (ads_destroy s1)
              (\<lambda>s2. if \<not> adsLoader s2 then throw ''adsLoader is undefined'' s2
                     else ads_load True
                            ((emit (Sdk ''adsLoader.contentComplete'') s2)
                               \<lparr>playTriggered := True, adsStarted := True, adsDone := False\<rparr>)))
      else
        (let s1 = s0\<lparr>listeners_on_element := listeners_on_element s0 @
                       [ContentEndedListener, LoadedMetadataHandler]\<rparr>
         in if IS_IOS (platform s1) \<or> IS_ANDROID (platform s1) then
              and_then (on_media ''src'' (set_src env (SrcArray (mediaSources s1))) s1)
                (\<lambda>s2. and_then (on_media ''load'' (load env) s2)
                   (\<lambda>s3. let s4 = prepareMedia s3
                          in ok (if has_parent s4 then s4\<lparr>ads_active_class := True\<rparr> else s4)))
            else ok (dispatchEvent ''loadedmetadata'' s1)))"

text \<open>
  \<open>_start\<close> registers \<open>_assign\<close> for the event types of its list and starts the
  manager when play was asked for; \<open>_loaded\<close> takes the manager from the loader's
  event and calls \<open>_start\<close>.
\<close>

definition start_events :: "ad_event_type list" where
  "start_events =
     [ALL_ADS_COMPLETED, CLICK, VIDEO_CLICKED, VIDEO_ICON_CLICKED, AD_PROGRESS,
      AD_BUFFERING, IMPRESSION, DURATION_CHANGE, USER_CLOSE, LINEAR_CHANGED,
      SKIPPABLE_STATE_CHANGED, AD_METADATA, INTERACTION, COMPLETE, FIRST_QUARTILE,
      LOADED, MIDPOINT, PAUSED, RESUMED, USER_CLOSE, STARTED, THIRD_QUARTILE, SKIPPED,
      VOLUME_CHANGED, VOLUME_MUTED, LOG]"

definition ads_start :: "Ads \<Rightarrow> Ads outcome" where
  "ads_start s0 =
     (let evs = start_events @ (if \<not> autoPlayAdBreaks (adsOptions s0) then [AD_BREAK_READY] else []);
          s1 = s0\<lparr>events := evs, manager_events := evs\<rparr>
      in if autoStart s1 \<or> playTriggered s1 then
           (let s2 = s1\<lparr>playTriggered := False\<rparr> in
            if \<not> adsDone s2 then initNotDoneAds s2
            else ok (dispatchEvent ''playing''
                       (dispatchEvent ''play''
                          (emit (Sdk ''adsManager.start'') (emit (Sdk ''adsManager.init'') s2)))))
         else if enablePreloading (adsOptions s1) then ok (emit (Sdk ''adsManager.init'') s1)
         else ok s1)"

definition ads_loaded :: "Ads \<Rightarrow> Ads outcome" where
  "ads_loaded s = ads_start (s\<lparr>adsManager := True, manager_events := []\<rparr>)"

text \<open>
  An event of the ads manager: its type, the ad it is about (\<open>getAd()\<close> may answer
  \<open>null\<close>) and, for \<open>LOG\<close>, whether its data has an \<open>adError\<close>.
\<close>

record ad =
  isLinear :: bool
  getDuration :: real

record ad_event =
  ev_type :: ad_event_type
  getAd :: "ad option"
  has_adError :: bool

text \<open>
  \<open>_assign\<close>: the \<open>switch\<close> on the event type, then the event that is passed on to
  the media element.  \<open>VOLUME_CHANGED\<close> falls through to \<open>VOLUME_MUTED\<close>.  Where a
  case reads \<open>ad.isLinear()\<close> and there is no ad, the read throws.
\<close>

definition with_ad :: "ad_event \<Rightarrow> (ad \<Rightarrow> Ads \<Rightarrow> Ads outcome) \<Rightarrow> Ads \<Rightarrow> Ads outcome" where
  "with_ad event f s =
     (case getAd event of None \<Rightarrow> throw ''ad is null'' s | Some a \<Rightarrow> f a s)"

definition assign_LOADED :: "media_env \<Rightarrow> ad \<Rightarrow> Ads \<Rightarrow> Ads outcome" where
  "assign_LOADED env a s0 =
     (if \<not> isLinear a then onContentResumeRequested env s0
      else
        (let s1 = (if IS_IPHONE (platform s0) then emit (Dom ''element.controls = false'') s0
                   else s0);
             s2 = s1\<lparr>adsDuration := getDuration a, adsCurrentTime := getDuration a\<rparr>
         in if \<not> mediaStarted s2 \<and> \<not> IS_IOS (platform s2) \<and> \<not> IS_ANDROID (platform s2) then
              ok (resizeAds (dispatchEvent ''loadedmetadata'' (dispatchEvent ''waiting'' s2)))
            else ok s2))"

definition assign_STARTED :: "ad \<Rightarrow> Ads \<Rightarrow> Ads outcome" where
  "assign_STARTED a s0 =
     (if isLinear a then
        (let s1 = (if has_parent s0 then s0\<lparr>ads_active_class := True\<rparr> else s0) in
         and_then (if \<not> get_paused (ads_media s1) then on_media ''pause'' pause s1 else ok s1)
           (\<lambda>s2. let s3 = resizeAds (dispatchEvent ''play'' (s2\<lparr>adsActive := True\<rparr>));
                      s4 = (if get_ended (ads_media s3)
                            then dispatchEvent ''adsmediaended'' (s3\<lparr>adsEnded := False\<rparr>)
                            else s3)
                  in ok (s4\<lparr>intervalTimer := next_timer s4,
                            timers := timers s4 @ [Interval (next_timer s4)],
                            next_timer := Suc (next_timer s4)\<rparr>)))
      else ok s0)"

definition assign_COMPLETE :: "ad_event_type \<Rightarrow> ad \<Rightarrow> Ads \<Rightarrow> Ads outcome" where
  "assign_COMPLETE ty a s0 =
     (if isLinear a then
        (let s1 = (if ty = SKIPPED then dispatchEvent ''adsskipped'' s0 else s0);
             s2 = (if has_parent s1 then s1\<lparr>ads_active_class := False\<rparr> else s1)
         in ok (s2\<lparr>adsActive := False,
                   timers := removeAll (Interval (intervalTimer s2)) (timers s2)\<rparr>))
      else ok s0)"

definition assign_VOLUME_MUTED :: "ad \<Rightarrow> Ads \<Rightarrow> Ads outcome" where
  "assign_VOLUME_MUTED a s =
     (if isLinear a then ok (dispatchEvent ''volumechange'' s) else ok s)"

definition ads_get_volume :: "Ads \<Rightarrow> real" where
  "ads_get_volume s = (if adsManager s then manager_volume s else originalVolume s)"

definition element_at_end :: "Element \<Rightarrow> bool" where
  "element_at_end el \<longleftrightarrow>
     (case el_duration el of Finite d \<Rightarrow> el_currentTime el \<ge> d | Infinity \<Rightarrow> False)"

definition assign_ALL_ADS_COMPLETED :: "ad \<Rightarrow> Ads \<Rightarrow> Ads outcome" where
  "assign_ALL_ADS_COMPLETED a s0 =
     (if isLinear a then
        (let s1 = s0\<lparr>adsActive := False, adsEnded := True, intervalTimer := 0,
                     adsMuted := False, adsStarted := False, adsDuration := 0,
                     adsCurrentTime := 0\<rparr>;
             s2 = (if has_parent s1 then s1\<lparr>ads_active_class := False\<rparr> else s1)
         in and_then (ads_destroy s2)
              (\<lambda>s3. ok (if element_at_end (ads_element s3) then dispatchEvent ''ended'' s3
                         else s3)))
      else ok s0)"

definition assign_switch :: "media_env \<Rightarrow> ad_event \<Rightarrow> Ads \<Rightarrow> Ads outcome" where
  "assign_switch env event s =
     (case ev_type event of
        LOADED \<Rightarrow> with_ad event (assign_LOADED env) s
      | STARTED \<Rightarrow> with_ad event assign_STARTED s
      | COMPLETE \<Rightarrow> with_ad event (assign_COMPLETE COMPLETE) s
      | SKIPPED \<Rightarrow> with_ad event (assign_COMPLETE SKIPPED) s
      | VOLUME_CHANGED \<Rightarrow>
          with_ad event assign_VOLUME_MUTED (setMediaVolume (ads_get_volume s) s)
      | VOLUME_MUTED \<Rightarrow> with_ad event assign_VOLUME_MUTED s
      | ALL_ADS_COMPLETED \<Rightarrow> with_ad event assign_ALL_ADS_COMPLETED s
      | CLICK \<Rightarrow> ok (dispatchEvent ''pause'' s)
      | _ \<Rightarrow> ok s)"

definition assign :: "media_env \<Rightarrow> ad_event \<Rightarrow> Ads \<Rightarrow> Ads outcome" where
  "assign env event s =
     and_then (assign_switch env event s)
       (\<lambda>s1. if ev_type event = LOG then
                (if has_adError event
                 then ok (dispatchEvent ''playererror'' (emit (Console ''warn'') s1))
                 else ok s1)
              else ok (emit (DispatchAds (ev_type event)) s1))"

text \<open>\<open>_error\<close>, with the error code of the event.\<close>

definition fatalErrorCodes :: "int list" where
  "fatalErrorCodes =
     [100, 101, 102, 300, 301, 302, 303, 400, 401, 402, 403, 405,
      406, 407, 408, 409, 410, 500, 501, 502, 503, 900, 901, 1005]"

definition falls_back :: "Ads \<Rightarrow> bool" where
  "falls_back s \<longleftrightarrow>
     (case ads s of
        AdTags tags \<Rightarrow> length tags > 1 \<and> currentAdsIndex s < int (length tags) - 1
      | AdTag _ \<Rightarrow> False)"

definition ads_error :: "int \<Rightarrow> Ads \<Rightarrow> Ads outcome" where
  "ads_error errorCode s0 =
     (let s1 = dispatchEvent ''playererror'' s0 in
      if falls_back s1 then
        and_then
          (ads_destroy (s1\<lparr>currentAdsIndex := currentAdsIndex s1 + 1, playTriggered := True,
                           adsStarted := True, adsDone := False\<rparr>))
          (\<lambda>s2. and_then (ads_load True s2) (\<lambda>s3. ok (emit (Console ''warn'') s3)))
      else
        (let s2 = (if errorCode \<in> set fatalErrorCodes then
                     emit (Console ''error'')
                       (if adsManager s1 then emit (Sdk ''adsManager.destroy'') s1 else s1)
                   else emit (Console ''warn'') s1)
         in if autoStart s2 \<or> autoStartMuted s2 \<or> adsStarted s2
            then ok (resumeMedia (s2\<lparr>adsActive := False\<rparr>))
            else ok s2))"

definition handleClickInContainer :: "Ads \<Rightarrow> Ads" where
  "handleClickInContainer s =
     (if get_paused (ads_media s) then ads_pause (dispatchEvent ''paused'' s) else s)"


text \<open>
  What can happen to the component once it is built: an event of the ads manager
  (handled by \<open>_assign\<close>, once for each registration of its type), an error or a
  loaded manager reported by the ads loader, the requests of the manager to pause
  and to resume the content, a media event of the browser on the element, a tick of
  the interval with the remaining time of the ad, and one of the pending pieces of
  work coming due.  An exception ends the handler and leaves the state as it is then.
\<close>

datatype ads_step =
    ManagerEvent ad_event
  | AdError int
  | AdsManagerLoaded
  | ContentPauseRequested
  | ContentResumeRequested
  | ElementEvent string
  | Tick nat real
  | Fire pending


text \<open>
  The chain of \<open>_resumeMedia\<close> coming due: rejected at once when the media had ended,
  otherwise \<open>media.play()\<close> followed by the event \<open>play\<close>; a rejection or an exception
  of \<open>play\<close> ends in the event \<open>ended\<close>.
\<close>

definition fire_resume :: "media_env \<Rightarrow> bool \<Rightarrow> Ads \<Rightarrow> Ads outcome" where
  "fire_resume env rejected s =
     (if rejected then ok (dispatchEvent ''ended'' s)
      else (case on_media ''play'' (play env) s of
              (Some e, s1) \<Rightarrow> ok (dispatchEvent ''ended'' s1)
            | (None, s1) \<Rightarrow> ok (dispatchEvent ''play'' s1)))"

definition interval_tick :: "real \<Rightarrow> Ads \<Rightarrow> Ads" where
  "interval_tick remaining s =
     (if adsActive s
      then dispatchEvent ''timeupdate'' (s\<lparr>adsCurrentTime := of_int (round remaining)\<rparr>)
      else s)"

fun handle :: "media_env \<Rightarrow> ads_step \<Rightarrow> Ads \<Rightarrow> Ads outcome" where
  "handle env (ManagerEvent event) s =
     fold (\<lambda>_ r. and_then r (assign env event))
       (filter (\<lambda>t. t = ev_type event) (manager_events s)) (ok s)"
| "handle env (AdError errorCode) s = ads_error errorCode s"
| "handle env AdsManagerLoaded s = ads_loaded s"
| "handle env ContentPauseRequested s = onContentPauseRequested s"
| "handle env ContentResumeRequested s = onContentResumeRequested env s"
| "handle env (ElementEvent name) s = ok (run_listeners name s)"
| "handle env (Tick n remaining) s = ok (interval_tick remaining s)"
| "handle env (Fire p) s =
     (let s1 = s\<lparr>timers := remove1 p (timers s)\<rparr> in
      case p of
        Resume rejected \<Rightarrow> fire_resume env rejected s1
      | MetadataRetry \<Rightarrow> loadedMetadataHandler s1
      | SdkReady \<Rightarrow> ads_load False s1
      | Interval n \<Rightarrow> ok s)"

definition step :: "media_env \<Rightarrow> ads_step \<Rightarrow> Ads \<Rightarrow> Ads" where
  "step env st s = snd (handle env st s)"

fun run_steps :: "media_env \<Rightarrow> ads_step list \<Rightarrow> Ads \<Rightarrow> Ads" where
  "run_steps env [] s = s"
| "run_steps env (st # sts) s = run_steps env sts (step env st s)"


text \<open>
  A sample player on a desktop browser: a video with one file, loaded, paused at
  the start, seekable up to 100 seconds, and ads that start by themselves.
\<close>

definition sample_element :: Element where
  "sample_element = bare_element\<lparr>el_src := ''movie.mp4'', el_seekable := [(0, 100)]\<rparr>"

definition sample_media :: Media where
  "sample_media =
     snd (load sample_env
            (new_Media sample_env sample_element sample_options False no_custom_media))"

definition desktop :: platform where
  "desktop = \<lparr>IS_IOS = False, IS_ANDROID = False, IS_IPHONE = False\<rparr>"

definition sample_ads_options :: ads_options where
  "sample_ads_options =
     \<lparr>autoPlayAdBreaks = True, customClick_enabled = False, enablePreloading = False,
      loop = False\<rparr>"



definition sample_ads :: "ads_source \<Rightarrow> Ads" where
  "sample_ads source =
     new_Ads desktop sample_media source True False sample_ads_options True"

text \<open>
  How often the component has called \<open>play()\<close> of the facade so far, and the
  condition under which \<open>destroy\<close> cannot fail on a missing manager.
\<close>

definition plays :: "Ads \<Rightarrow> nat" where
  "plays s = count_list (log s) (MediaCall ''play'')"

definition manager_invariant :: "Ads \<Rightarrow> bool" where
  "manager_invariant s \<longleftrightarrow> events s = [] \<or> adsManager s"




subsection \<open>The listeners of the fullscreen control (\<open>Fullscreen\<close>)\<close>

text \<open>
  A function object has the code it runs and an identity.  Evaluating an arrow
  function and calling \<open>bind\<close> both make a new object, so each takes the next
  unused identity.  The arrow functions for \<open>webkitbeginfullscreen\<close> and
  \<open>webkitendfullscreen\<close> carry the argument they pass to \<open>_setFullscreenData\<close>.
\<close>

datatype fs_code =
    KeydownEvent | FullscreenChange | ClickEvent | BoundClickEvent
  | WebkitBegin bool | WebkitEnd bool

record fn_object =
  code :: fs_code
  identity :: nat

type_synonym listeners = "(string \<times> fn_object) list"

text \<open>
  \<open>addEventListener\<close> appends the pair of event name and function unless the target
  has it already; \<open>removeEventListener\<close> removes the entry with this event name and
  this very function object and does nothing when there is none.
\<close>

definition addEventListener :: "string \<Rightarrow> fn_object \<Rightarrow> listeners \<Rightarrow> listeners" where
  "addEventListener ev f ls = (if (ev, f) \<in> set ls then ls else ls @ [(ev, f)])"

definition removeEventListener :: "string \<Rightarrow> fn_object \<Rightarrow> listeners \<Rightarrow> listeners" where
  "removeEventListener ev f ls = remove1 (ev, f) ls"

text \<open>
  The fields of the control and the parts of the page it touches: the listeners on
  the player's container, on the document, on the button and on the media element,
  the \<open>data-fullscreen\<close> attribute of the container, the classes of the button and
  whether the button is in the controls bar.  \<open>next_ident\<close> is the next unused
  identity of a function object; \<open>is_iphone\<close> is the constant \<open>IS_IPHONE\<close>.
\<close>

record Fullscreen =
  is_iphone :: bool
  next_ident :: nat
  isFullscreen :: bool
  has_button :: bool
  clickEvent :: "fn_object option"
  fullscreenEvents :: "string list option"
  container_listeners :: listeners
  document_listeners :: listeners
  button_listeners :: listeners
  element_listeners :: listeners
  data_fullscreen :: "string option"
  button_classes :: "string list"
  button_attached :: bool

definition new_fn :: "fs_code \<Rightarrow> Fullscreen \<Rightarrow> fn_object \<times> Fullscreen" where
  "new_fn c s = (\<lparr>code = c, identity = next_ident s\<rparr>, s\<lparr>next_ident := Suc (next_ident s)\<rparr>)"

definition setFullscreenData :: "bool \<Rightarrow> Fullscreen \<Rightarrow> Fullscreen" where
  "setFullscreenData state s =
     (let s1 = s\<lparr>data_fullscreen := Some (if state then ''true'' else ''false'')\<rparr>
      in if state then
           s1\<lparr>button_classes :=
                 (if ''op-controls__fullscreen--out'' \<in> set (button_classes s1)
                  then button_classes s1
                  else button_classes s1 @ [''op-controls__fullscreen--out''])\<rparr>
         else s1\<lparr>button_classes := removeAll ''op-controls__fullscreen--out'' (button_classes s1)\<rparr>)"

text \<open>
  The \<open>forEach\<close> over \<open>fullscreenEvents\<close> in \<open>create\<close> and in \<open>destroy\<close>: a new
  bound function for each event name.
\<close>

fun add_document_listeners :: "string list \<Rightarrow> Fullscreen \<Rightarrow> Fullscreen" where
  "add_document_listeners [] s = s"
| "add_document_listeners (ev # evs) s =
     (let (f, s1) = new_fn FullscreenChange s
      in add_document_listeners evs
           (s1\<lparr>document_listeners := addEventListener ev f (document_listeners s1)\<rparr>))"

fun remove_document_listeners :: "string list \<Rightarrow> Fullscreen \<Rightarrow> Fullscreen" where
  "remove_document_listeners [] s = s"
| "remove_document_listeners (ev # evs) s =
     (let (f, s1) = new_fn FullscreenChange s
      in remove_document_listeners evs
           (s1\<lparr>document_listeners := removeEventListener ev f (document_listeners s1)\<rparr>))"

text \<open>\<open>create\<close>, statement by statement.\<close>

definition create :: "Fullscreen \<Rightarrow> Fullscreen" where
  "create s0 =
     (let s1 = s0\<lparr>has_button := True, button_listeners := [],
                  button_classes := [''op-controls__fullscreen''], button_attached := False\<rparr>;
          (click, s2) = new_fn ClickEvent s1;
          s3 = s2\<lparr>clickEvent := Some click\<rparr>;
          evs = [''fullscreenchange'', ''mozfullscreenchange'',
                    ''webkitfullscreenchange'', ''msfullscreenchange''];
          s4 = s3\<lparr>fullscreenEvents := Some evs\<rparr>;
          s5 = setFullscreenData False s4;
          (keydown, s6) = new_fn KeydownEvent s5;
          s7 = s6\<lparr>container_listeners :=
                     addEventListener ''keydown'' keydown (container_listeners s6)\<rparr>;
          s8 = add_document_listeners evs s7;
          (bound_click, s9) = new_fn BoundClickEvent s8;
          s10 = s9\<lparr>button_listeners :=
                      addEventListener ''click'' bound_click (button_listeners s9)\<rparr>;
          s11 = s10\<lparr>button_attached := True\<rparr>
      in if is_iphone s11 then
           (let (begin_fn, s12) = new_fn (WebkitBegin True) s11;
                s13 = s12\<lparr>element_listeners :=
                  addEventListener ''webkitbeginfullscreen'' begin_fn (element_listeners s12)\<rparr>;
                (end_fn, s14) = new_fn (WebkitEnd False) s13
            in s14\<lparr>element_listeners :=
                  addEventListener ''webkitendfullscreen'' end_fn (element_listeners s14)\<rparr>)
         else s11)"

text \<open>
  \<open>destroy\<close>, statement by statement.  Before \<open>create\<close> the field
  \<open>fullscreenEvents\<close> is \<open>undefined\<close> and its \<open>forEach\<close> throws.
\<close>

definition destroy_fullscreen :: "Fullscreen \<Rightarrow> js_error + Fullscreen" where
  "destroy_fullscreen s0 =
     (let (keydown, s1) = new_fn KeydownEvent s0;
          s2 = s1\<lparr>container_listeners :=
                     removeEventListener ''keydown'' keydown (container_listeners s1)\<rparr>
      in case fullscreenEvents s2 of
           None \<Rightarrow> Inl (TypeError ''fullscreenEvents is undefined'')
         | Some evs \<Rightarrow>
            (let s3 = remove_document_listeners evs s2;
                 s4 = (if is_iphone s3 then
                         (let (begin_fn, s31) = new_fn (WebkitBegin False) s3;
                              s32 = s31\<lparr>element_listeners :=
                                 removeEventListener ''webkitbeginfullscreen'' begin_fn
                                   (element_listeners s31)\<rparr>;
                              (end_fn, s33) = new_fn (WebkitEnd True) s32
                          in s33\<lparr>element_listeners :=
                                 removeEventListener ''webkitendfullscreen'' end_fn
                                   (element_listeners s33)\<rparr>)
                       else s3)
             in case clickEvent s4 of
                  None \<Rightarrow> Inl (TypeError ''clickEvent is undefined'')
                | Some click \<Rightarrow>
                   (let (bound_click, s5) = new_fn BoundClickEvent s4;
                        s6 = s5\<lparr>button_listeners :=
                           removeEventListener ''click'' bound_click (button_listeners s5)\<rparr>
                    in Inr (s6\<lparr>button_attached := False\<rparr>))))"

text \<open>A control as its constructor leaves it, on a page without listeners.\<close>

definition new_Fullscreen :: "bool \<Rightarrow> Fullscreen" where
  "new_Fullscreen iphone =
     \<lparr>is_iphone = iphone, next_ident = 0, isFullscreen = False, has_button = False,
      clickEvent = None, fullscreenEvents = None, container_listeners = [],
      document_listeners = [], button_listeners = [], element_listeners = [],
      data_fullscreen = None, button_classes = [], button_attached = False\<rparr>"

text \<open>All listeners on the four targets.\<close>

definition all_listeners :: "Fullscreen \<Rightarrow> listeners" where
  "all_listeners s =
     container_listeners s @ document_listeners s @ button_listeners s @ element_listeners s"

subsection \<open>The caption sanitiser (\<open>Captions._sanitize\<close>)\<close>

text \<open>
  The sanitiser works on the tree that the browser builds below a fresh \<open><div>\<close> when
  the caption text is assigned to \<open>innerHTML\<close>, and returns the serialisation of what
  it leaves of that tree.  Parser and serialiser belong to the browser; the model
  starts from the parsed nodes and ends with the nodes that are serialised.  An
  element has its tag name, its attributes in their order and its children.
\<close>

datatype node =
    Element (tagName: string) (attributes: "(string \<times> string) list") (childNodes: "node list")
  | Text string

text \<open>The elements below the \<open><div>\<close> in document order.\<close>

fun elements_of_node :: "node \<Rightarrow> node list"
  and elements_of :: "node list \<Rightarrow> node list" where
  "elements_of_node (Text t) = []"
| "elements_of_node (Element tag attrs children) =
     Element tag attrs children # elements_of children"
| "elements_of [] = []"
| "elements_of (n # ns) = elements_of_node n @ elements_of ns"

text \<open>
  \<open>getElementsByTagName\<close> returns a live collection: each read of its length or of an
  entry sees the tree as it is at that moment.  The model computes the collection
  from the current tree at every read.
\<close>

definition matches_tag :: "string \<Rightarrow> node \<Rightarrow> bool" where
  "matches_tag name n \<longleftrightarrow> name = ''*'' \<or> (case n of Element tag _ _ \<Rightarrow> tag = name | Text _ \<Rightarrow> False)"

definition getElementsByTagName :: "string \<Rightarrow> node list \<Rightarrow> node list" where
  "getElementsByTagName name forest = filter (matches_tag name) (elements_of forest)"

definition item :: "string \<Rightarrow> node list \<Rightarrow> nat \<Rightarrow> node option" where
  "item name forest k =
     (let collection = getElementsByTagName name forest
      in if k < length collection then Some (collection ! k) else None)"

text \<open>
  Changing the entry \<open>k\<close> of the collection for a tag name in place: \<open>change\<close> answers
  with the new element, or with nothing when the element is taken out of its
  parent.  The walk counts the matching elements in document order; its first
  result is what is left of \<open>k\<close>, or \<open>None\<close> once the entry has been found.
\<close>

fun modify_node :: "string \<Rightarrow> (node \<Rightarrow> node option) \<Rightarrow> nat \<Rightarrow> node \<Rightarrow> nat option \<times> node list"
  and modify_nodes ::
    "string \<Rightarrow> (node \<Rightarrow> node option) \<Rightarrow> nat \<Rightarrow> node list \<Rightarrow> nat option \<times> node list" where
  "modify_node name change k (Text t) = (Some k, [Text t])"
| "modify_node name change k (Element tag attrs children) =
     (if matches_tag name (Element tag attrs children) \<and> k = 0 then
        (None, (case change (Element tag attrs children) of None \<Rightarrow> [] | Some n \<Rightarrow> [n]))
      else
        (let k' = (if matches_tag name (Element tag attrs children) then k - 1 else k);
             (r, children') = modify_nodes name change k' children
         in (r, [Element tag attrs children'])))"
| "modify_nodes name change k [] = (Some k, [])"
| "modify_nodes name change k (n # ns) =
     (case modify_node name change k n of
        (None, n') \<Rightarrow> (None, n' @ ns)
      | (Some k', n') \<Rightarrow>
          (let (r, ns') = modify_nodes name change k' ns in (r, n' @ ns')))"

text \<open>
  \<open>removeElement\<close> of \<open>utils/general\<close> is not among the sources at hand.  It is
  taken to detach the node it is given from its parent; \<open>tolerant\<close> says whether it
  does nothing when it is given \<open>undefined\<close> or throws on reading its parent.
\<close>

definition removeElement ::
  "bool \<Rightarrow> string \<Rightarrow> nat \<Rightarrow> node list \<Rightarrow> js_error + node list" where
  "removeElement tolerant name k forest =
     (case item name forest k of
        None \<Rightarrow> if tolerant then Inr forest else Inl (TypeError ''node is undefined'')
      | Some n \<Rightarrow> Inr (snd (modify_nodes name (\<lambda>_. None) k forest)))"

definition removeAttribute :: "string \<Rightarrow> node \<Rightarrow> node option" where
  "removeAttribute attr n =
     (case n of
        Element tag attrs children \<Rightarrow>
          Some (Element tag (filter (\<lambda>a. fst a \<noteq> attr) attrs) children)
      | Text t \<Rightarrow> Some (Text t))"

text \<open>The test \<open>/^(on|javascript:)/\<close> on the name of an attribute.\<close>

definition on_or_javascript :: "string \<Rightarrow> bool" where
  "on_or_javascript name \<longleftrightarrow> take 2 name = ''on'' \<or> take 11 name = ''javascript:''"

text \<open>
  The first loop, \<open>let i = scripts.length; while (i--) removeElement(scripts[i])\<close>,
  walks the live collection of the \<open>script\<close> elements from its end.
\<close>

fun remove_scripts :: "bool \<Rightarrow> nat \<Rightarrow> node list \<Rightarrow> js_error + node list" where
  "remove_scripts tolerant 0 forest = Inr forest"
| "remove_scripts tolerant (Suc i) forest =
     (case removeElement tolerant ''script'' i forest of
        Inl e \<Rightarrow> Inl e
      | Inr forest' \<Rightarrow> remove_scripts tolerant i forest')"

text \<open>
  The inner loop over the attributes that the element at \<open>index\<close> had when the
  outer loop reached it.  Each use of \<open>allElements[index]\<close> reads the live
  collection again.
\<close>

fun attributes_loop ::
  "bool \<Rightarrow> nat \<Rightarrow> (string \<times> string) list \<Rightarrow> node list \<Rightarrow> js_error + node list" where
  "attributes_loop tolerant index [] forest = Inr forest"
| "attributes_loop tolerant index (a # rest) forest =
     (if on_or_javascript (fst a) then
        (case removeElement tolerant ''*'' index forest of
           Inl e \<Rightarrow> Inl e
         | Inr forest' \<Rightarrow> attributes_loop tolerant index rest forest')
      else if fst a = ''style'' then
        (case item ''*'' forest index of
           None \<Rightarrow> Inl (TypeError ''allElements[index] is undefined'')
         | Some n \<Rightarrow>
             attributes_loop tolerant index rest
               (snd (modify_nodes ''*'' (removeAttribute (fst a)) index forest)))
      else attributes_loop tolerant index rest forest)"

text \<open>
  The outer loop, \<open>for (index = 0, n = allElements.length; index < n; index++)\<close>:
  \<open>n\<close> is read once, before the loop; \<open>remaining\<close> is \<open>n - index\<close>.
\<close>

fun elements_loop :: "bool \<Rightarrow> nat \<Rightarrow> nat \<Rightarrow> node list \<Rightarrow> js_error + node list" where
  "elements_loop tolerant index 0 forest = Inr forest"
| "elements_loop tolerant index (Suc remaining) forest =
     (case item ''*'' forest index of
        None \<Rightarrow> Inl (TypeError ''allElements[index] is undefined'')
      | Some n \<Rightarrow>
          (case attributes_loop tolerant index (attributes n) forest of
             Inl e \<Rightarrow> Inl e
           | Inr forest' \<Rightarrow> elements_loop tolerant (Suc index) remaining forest'))"

definition sanitize :: "bool \<Rightarrow> node list \<Rightarrow> js_error + node list" where
  "sanitize tolerant forest =
     (case remove_scripts tolerant (length (getElementsByTagName ''script'' forest)) forest of
        Inl e \<Rightarrow> Inl e
      | Inr forest1 \<Rightarrow>
          elements_loop tolerant 0 (length (getElementsByTagName ''*'' forest1)) forest1)"

text \<open>What the sanitiser is to leave out.\<close>

definition clean_element :: "node \<Rightarrow> bool" where
  "clean_element n \<longleftrightarrow>
     (case n of
        Element tag attrs children \<Rightarrow>
          tag \<noteq> ''script'' \<and> (\<forall>a \<in> set attrs. \<not> on_or_javascript (fst a) \<and> fst a \<noteq> ''style'')
      | Text t \<Rightarrow> True)"

definition clean :: "node list \<Rightarrow> bool" where
  "clean forest \<longleftrightarrow> (\<forall>n \<in> set (elements_of forest). clean_element n)"

section \<open>Properties\<close>

subsection \<open>The cue lookup\<close>



text \<open>
  A run of the loop whose probe is a cue that starts at the queried time and does
  not end after it: no branch of the body applies, so the loop never ends.
\<close>

lemma search_loop_stuck:
  assumes "search_loop tr t lo hi = Some y"
  shows "\<not> (tr = [plain_cue 5 5 ''x''] \<and> t = 5 \<and> lo = 0 \<and> hi = 0)"
  apply (rule search_loop.raw_induct[OF _ assms])
  subgoal premises p for f tr t lo hi y
  proof
    assume a: "tr = [plain_cue 5 5 ''x''] \<and> t = 5 \<and> lo = 0 \<and> hi = 0"
    with p(2) have "f tr t lo hi = Some y"
      by (simp add: to_int32_def elem_def plain_cue_def)
    from p(1)[OF this] a show False by simp
  qed
  done

lemma search_loop_zero_length: "search_loop [plain_cue 5 5 ''x''] 5 0 0 = None"
proof (cases "search_loop [plain_cue 5 5 ''x''] 5 0 0")
  case None then show ?thesis .
next
  case (Some y)
  from search_loop_stuck[OF this] show ?thesis by simp
qed




text \<open>
  Claim C8 says that \<open>_search\<close> terminates for every cue list and every time, also
  when a cue starts at the queried time and does not end after it.  On the list with
  the single cue from 5 to 5 and the time 5 the loop does not terminate: the value
  of the run is \<open>None\<close>.
\<close>

theorem search_diverges_on_zero_length_cue:
  "search [plain_cue 5 5 ''x''] 5 = None"
  by (simp add: search_def search_loop_zero_length)

subsection \<open>The media facade\<close>

text \<open>
  Claim C7.  A level has exactly the fields \<open>height\<close>, \<open>id\<close> and \<open>label\<close>, and a
  facade whose backend is not yet set answers \<open>levels\<close> with the empty list and
  \<open>level\<close> with \<open>-1\<close>, while assigning \<open>level\<close> changes nothing.
\<close>

theorem levels_without_backend:
  fixes m :: Media and l l' :: Level
  assumes "media m = None"
  shows "get_levels m = [] \<and> get_level m = Num (- 1) \<and> set_level v m = m \<and>
     (l = l' \<longleftrightarrow> height l = height l' \<and> level_id l = level_id l' \<and> label l = label l')"
  using assms by (auto simp: get_levels_def get_level_def set_level_def)

theorem levels_without_backend_witness:
  "media bare_media = None \<and> get_levels bare_media = [] \<and>
   get_level bare_media = Num (- 1) \<and> set_level (Num 2) bare_media = bare_media"
  using levels_without_backend[of bare_media "Num 2"]
  by (simp add: bare_media_def new_Media_def getMediaFiles_def Let_def)

text \<open>No method other than the two setters below replaces or shortens \<open>files\<close>.\<close>

lemma files_load_one: "files (load_one env m f) = files m"
  by (simp add: load_one_def Let_def)

lemma files_load_some: "files (load_some env m fs) = files m"
  by (induction fs arbitrary: m) (simp_all add: Let_def files_load_one)

lemma files_load: "files (snd (load env m)) = files m"
  by (simp add: load_def Let_def files_load_some split: option.splits)

lemma files_backend_play: "files (snd (backend_play m)) = files m"
  by (simp add: backend_play_def split: option.splits)

lemma files_play: "files (snd (play env m)) = files m"
proof (cases "mediaLoaded m")
  case True
  then show ?thesis
    using files_backend_play[of m]
    by (auto simp: play_def split: prod.splits option.splits)
next
  case False
  obtain e m' where l: "load env (m\<lparr>mediaLoaded := True\<rparr>) = (e, m')" by force
  then have "files m' = files m" using files_load[of env "m\<lparr>mediaLoaded := True\<rparr>"] by simp
  with False l show ?thesis
    using files_backend_play[of m']
    by (auto simp: play_def split: option.splits)
qed

lemma files_set_src:
  "files m \<noteq> [] \<Longrightarrow> v \<noteq> SrcArray [] \<Longrightarrow> files (snd (set_src env v m)) \<noteq> []"
  by (cases v) (auto simp: set_src_def Let_def split: option.splits list.splits)

lemma files_apply:
  assumes "files m \<noteq> []" "op \<noteq> SetMediaFiles []" "op \<noteq> SetSrc (SrcArray [])"
  shows "files (snd (apply_media_op env op m)) \<noteq> []"
proof (cases op)
  case Load with assms show ?thesis using files_load[of env m] by simp
next
  case Play with assms show ?thesis using files_play[of env m] by simp
next
  case (SetSrc v) with assms show ?thesis using files_set_src[of m v env] by simp
qed (use assms in \<open>auto simp: pause_def destroy_def set_mediaFiles_def set_volume_def set_muted_def
      set_playbackRate_def set_defaultPlaybackRate_def set_currentTime_def set_loaded_def
      set_level_def split: option.splits\<close>)

lemma files_run:
  "files m \<noteq> [] \<Longrightarrow> SetMediaFiles [] \<notin> set ops \<Longrightarrow> SetSrc (SrcArray []) \<notin> set ops \<Longrightarrow>
   files (run_media_ops env ops m) \<noteq> []"
proof (induction ops arbitrary: m)
  case Nil then show ?case by simp
next
  case (Cons op ops)
  from Cons.prems have "files (snd (apply_media_op env op m)) \<noteq> []"
    by (intro files_apply) auto
  from Cons.IH[OF this] Cons.prems show ?case by simp
qed

lemma files_new: "files (new_Media env el opts auto custom) \<noteq> []"
  by (simp add: new_Media_def getMediaFiles_def Let_def split: prod.splits)

lemma load_throws_iff: "fst (load env m) = Some (TypeError ''Media not set'') \<longleftrightarrow> files m = []"
  by (simp add: load_def Let_def)


text \<open>
  Claim C9, amended.  \<open>load\<close> throws \<open>TypeError('Media not set')\<close> if and only if
  \<open>files\<close> is empty; the list that the constructor builds is never empty; and after
  any run of the facade's methods from the constructor, \<open>load\<close> throws this error
  only if the run gave an empty array to the setter of \<open>mediaFiles\<close> or to the setter
  of \<open>src\<close>.
\<close>

theorem media_not_set_only_after_emptying:
  "(fst (load env m) = Some (TypeError ''Media not set'') \<longleftrightarrow> files m = []) \<and>
   files (new_Media env el opts auto custom) \<noteq> [] \<and>
   (fst (load env (run_media_ops env ops (new_Media env el opts auto custom)))
       = Some (TypeError ''Media not set'') \<longrightarrow>
    SetMediaFiles [] \<in> set ops \<or> SetSrc (SrcArray []) \<in> set ops)"
proof -
  have "SetMediaFiles [] \<notin> set ops \<Longrightarrow> SetSrc (SrcArray []) \<notin> set ops \<Longrightarrow>
      files (run_media_ops env ops (new_Media env el opts auto custom)) \<noteq> []"
    by (rule files_run[OF files_new])
  then show ?thesis
    by (auto simp: load_throws_iff files_new)
qed

theorem media_not_set_only_after_emptying_witness:
  "fst (load sample_env (run_media_ops sample_env [SetMediaFiles []]
          (new_Media sample_env bare_element sample_options False no_custom_media)))
     = Some (TypeError ''Media not set'') \<and>
   (SetMediaFiles [] \<in> set [SetMediaFiles []] \<or>
    SetSrc (SrcArray []) \<in> set [SetMediaFiles []])"
  using media_not_set_only_after_emptying[of sample_env _ bare_element sample_options False
      no_custom_media "[SetMediaFiles []]"]
  by (simp add: set_mediaFiles_def load_def)

text \<open>
  The claim C9 as first stated names the setter of \<open>mediaFiles\<close> alone.  The setter of
  \<open>src\<close> with an empty array stores the array in \<open>files\<close> before it fails on
  \<open>files[0]\<close>, and the next \<open>load\<close> throws \<open>Media not set\<close> although the setter of
  \<open>mediaFiles\<close> was never used.
\<close>

theorem media_not_set_after_src_setter_counterexample:
  "fst (load sample_env (run_media_ops sample_env [SetSrc (SrcArray [])] bare_media))
     = Some (TypeError ''Media not set'') \<and>
   SetMediaFiles [] \<notin> set [SetSrc (SrcArray [])]"
  by (simp add: bare_media_def new_Media_def getMediaFiles_def set_src_def load_def Let_def)

subsection \<open>The WebVTT reader\<close>











subsection \<open>The ads component\<close>

text \<open>
  The component has listeners on the media element for \<open>loadedmetadata\<close> and
  \<open>ended\<close> only, so the dispatch of any other event runs none of them.
\<close>

lemma run_listeners_other:
  "name \<noteq> ''loadedmetadata'' \<Longrightarrow> name \<noteq> ''ended'' \<Longrightarrow> run_listeners name s = s"
proof -
  assume a: "name \<noteq> ''loadedmetadata''" "name \<noteq> ''ended''"
  have "event_of l \<noteq> name" for l
    using a by (cases l) auto
  then have "filter (\<lambda>l. event_of l = name) ls = []" for ls
    by (induction ls) auto
  then show ?thesis by (simp add: run_listeners_def)
qed

lemma dispatch_other:
  "name \<noteq> ''loadedmetadata'' \<Longrightarrow> name \<noteq> ''ended'' \<Longrightarrow> dispatchEvent name s = emit (Dispatch name) s"
  by (simp add: dispatchEvent_def run_listeners_other)

lemma keep_emit:
  "lastTimePaused (emit e s) = lastTimePaused s"
  "e \<noteq> MediaCall ''play'' \<Longrightarrow> plays (emit e s) = plays s"
  by (simp_all add: emit_def plays_def)

lemma plays_upd [simp]:
  "plays (s\<lparr>adsEnded := a1\<rparr>) = plays s"
  "plays (s\<lparr>adsDone := a2\<rparr>) = plays s"
  "plays (s\<lparr>adsActive := a3\<rparr>) = plays s"
  "plays (s\<lparr>adsStarted := a4\<rparr>) = plays s"
  "plays (s\<lparr>intervalTimer := a5\<rparr>) = plays s"
  "plays (s\<lparr>adsMuted := a6\<rparr>) = plays s"
  "plays (s\<lparr>adsDuration := a7\<rparr>) = plays s"
  "plays (s\<lparr>adsCurrentTime := a8\<rparr>) = plays s"
  "plays (s\<lparr>adsManager := a9\<rparr>) = plays s"
  "plays (s\<lparr>ads_media := a10\<rparr>) = plays s"
  "plays (s\<lparr>events := a11\<rparr>) = plays s"
  "plays (s\<lparr>adsLoader := a12\<rparr>) = plays s"
  "plays (s\<lparr>adsContainer := a13\<rparr>) = plays s"
  "plays (s\<lparr>adsCustomClickContainer := a14\<rparr>) = plays s"
  "plays (s\<lparr>adDisplayContainer := a15\<rparr>) = plays s"
  "plays (s\<lparr>playTriggered := a16\<rparr>) = plays s"
  "plays (s\<lparr>currentAdsIndex := a17\<rparr>) = plays s"
  "plays (s\<lparr>preloadContent := a18\<rparr>) = plays s"
  "plays (s\<lparr>lastTimePaused := a19\<rparr>) = plays s"
  "plays (s\<lparr>mediaSources := a20\<rparr>) = plays s"
  "plays (s\<lparr>ads_active_class := a21\<rparr>) = plays s"
  "plays (s\<lparr>manager_events := a22\<rparr>) = plays s"
  "plays (s\<lparr>listeners_on_element := a23\<rparr>) = plays s"
  "plays (s\<lparr>timers := a24\<rparr>) = plays s"
  "plays (s\<lparr>next_timer := a25\<rparr>) = plays s"
  by (simp_all add: plays_def)

lemmas keep_simps = keep_emit ok_def throw_def and_then_def Let_def

lemma keep_resizeAds [simp]:
  "lastTimePaused (resizeAds s) = lastTimePaused s" "plays (resizeAds s) = plays s"
  by (simp_all add: resizeAds_def keep_simps)

lemma keep_setMediaVolume [simp]:
  "lastTimePaused (setMediaVolume v s) = lastTimePaused s" "plays (setMediaVolume v s) = plays s"
  by (simp_all add: setMediaVolume_def keep_simps)

lemma keep_requestAds [simp]:
  "lastTimePaused (snd (requestAds s)) = lastTimePaused s" "plays (snd (requestAds s)) = plays s"
  by (simp_all add: requestAds_def keep_simps)

lemma keep_contentLoadedAction [simp]:
  "lastTimePaused (snd (contentLoadedAction s)) = lastTimePaused s"
  "plays (snd (contentLoadedAction s)) = plays s"
  by (simp_all add: contentLoadedAction_def keep_simps)

lemma keep_initNotDoneAds [simp]:
  "lastTimePaused (snd (initNotDoneAds s)) = lastTimePaused s"
  "plays (snd (initNotDoneAds s)) = plays s"
  by (simp_all add: initNotDoneAds_def keep_simps)

lemma keep_contentEndedListener [simp]:
  "lastTimePaused (snd (contentEndedListener s)) = lastTimePaused s"
  "plays (snd (contentEndedListener s)) = plays s"
  by (simp_all add: contentEndedListener_def keep_simps)

lemma keep_resetAdsAfterManualBreak [simp]:
  "lastTimePaused (snd (resetAdsAfterManualBreak s)) = lastTimePaused s"
  "plays (snd (resetAdsAfterManualBreak s)) = plays s"
  by (simp_all add: resetAdsAfterManualBreak_def keep_simps)

lemma keep_resumeMedia [simp]:
  "lastTimePaused (resumeMedia s) = lastTimePaused s" "plays (resumeMedia s) = plays s"
  by (simp_all add: resumeMedia_def keep_simps)

lemma keep_prepareMedia [simp]:
  "lastTimePaused (prepareMedia s) = lastTimePaused s" "plays (prepareMedia s) = plays s"
  by (simp_all add: prepareMedia_def keep_simps)

lemma keep_and_then:
  assumes "\<And>s. lastTimePaused (snd (f s)) = lastTimePaused s"
  shows "lastTimePaused (snd (and_then r f)) = lastTimePaused (snd r)"
  using assms by (cases r) (auto simp: and_then_def split: option.splits)

lemma plays_and_then:
  assumes "\<And>s. plays (snd (f s)) = plays s"
  shows "plays (snd (and_then r f)) = plays (snd r)"
  using assms by (cases r) (auto simp: and_then_def split: option.splits)

lemma keep_loadedMetadataHandler [simp]:
  "lastTimePaused (snd (loadedMetadataHandler s)) = lastTimePaused s"
  "plays (snd (loadedMetadataHandler s)) = plays s"
  by (simp_all add: loadedMetadataHandler_def keep_and_then plays_and_then keep_emit ok_def throw_def Let_def
      split: ads_source.splits list.splits)

lemma keep_run_listener [simp]:
  "lastTimePaused (run_listener l s) = lastTimePaused s" "plays (run_listener l s) = plays s"
  by (simp_all add: run_listener_def split: element_listener.splits)

lemma keep_fold_listeners [simp]:
  "lastTimePaused (fold run_listener ls s) = lastTimePaused s"
  "plays (fold run_listener ls s) = plays s"
  by (induction ls arbitrary: s) simp_all

lemma keep_run_listeners [simp]:
  "lastTimePaused (run_listeners name s) = lastTimePaused s"
  "plays (run_listeners name s) = plays s"
  by (simp_all add: run_listeners_def)

lemma keep_dispatchEvent [simp]:
  "lastTimePaused (dispatchEvent name s) = lastTimePaused s"
  "plays (dispatchEvent name s) = plays s"
  by (simp_all add: dispatchEvent_def keep_emit)

lemma keep_ads_destroy [simp]:
  "lastTimePaused (snd (ads_destroy s)) = lastTimePaused s"
  "plays (snd (ads_destroy s)) = plays s"
  by (simp_all add: ads_destroy_def keep_simps)

lemma keep_ads_load [simp]:
  "lastTimePaused (snd (ads_load force s)) = lastTimePaused s"
  "plays (snd (ads_load force s)) = plays s"
  by (simp_all add: ads_load_def keep_simps)

lemma keep_on_media:
  "lastTimePaused (snd (on_media name f s)) = lastTimePaused s"
  "name \<noteq> ''play'' \<Longrightarrow> plays (snd (on_media name f s)) = plays s"
  by (simp_all add: on_media_def keep_emit split: prod.splits)

lemma plays_onContentPauseRequested [simp]:
  "plays (snd (onContentPauseRequested s)) = plays s"
  by (simp add: onContentPauseRequested_def plays_and_then keep_on_media ok_def Let_def)

lemma keep_onContentResumeRequested [simp]:
  "lastTimePaused (snd (onContentResumeRequested env s)) = lastTimePaused s"
  "plays (snd (onContentResumeRequested env s)) = plays s"
  by (simp_all add: onContentResumeRequested_def keep_and_then plays_and_then keep_on_media
      keep_emit ok_def throw_def Let_def split: ads_source.splits)

lemma keep_ads_start [simp]:
  "lastTimePaused (snd (ads_start s)) = lastTimePaused s"
  "plays (snd (ads_start s)) = plays s"
  by (simp_all add: ads_start_def keep_simps)

lemma keep_ads_loaded [simp]:
  "lastTimePaused (snd (ads_loaded s)) = lastTimePaused s"
  "plays (snd (ads_loaded s)) = plays s"
  by (simp_all add: ads_loaded_def)

lemma keep_assign_switch [simp]:
  "lastTimePaused (snd (assign_switch env event s)) = lastTimePaused s"
  "plays (snd (assign_switch env event s)) = plays s"
  by (simp_all add: assign_switch_def with_ad_def assign_LOADED_def assign_STARTED_def
      assign_COMPLETE_def assign_VOLUME_MUTED_def assign_ALL_ADS_COMPLETED_def
      keep_and_then plays_and_then keep_on_media keep_emit ok_def throw_def Let_def
      split: ad_event_type.splits option.splits)

lemma keep_assign [simp]:
  "lastTimePaused (snd (assign env event s)) = lastTimePaused s"
  "plays (snd (assign env event s)) = plays s"
  by (simp_all add: assign_def keep_and_then plays_and_then keep_emit ok_def)

lemma keep_ads_error [simp]:
  "lastTimePaused (snd (ads_error c s)) = lastTimePaused s"
  "plays (snd (ads_error c s)) = plays s"
  by (simp_all add: ads_error_def keep_and_then plays_and_then keep_emit ok_def Let_def)

lemma keep_fold_assign [simp]:
  "lastTimePaused (snd (fold (\<lambda>_ r. and_then r (assign env event)) ts r)) = lastTimePaused (snd r)"
  "plays (snd (fold (\<lambda>_ r. and_then r (assign env event)) ts r)) = plays (snd r)"
  by (induction ts arbitrary: r) (simp_all add: keep_and_then plays_and_then)

lemma lastTimePaused_fire_resume [simp]:
  "lastTimePaused (snd (fire_resume env rejected s)) = lastTimePaused s"
  by (simp add: fire_resume_def ok_def keep_on_media split: prod.splits option.splits)
     (metis keep_on_media(1) snd_conv)

lemma keep_interval_tick [simp]:
  "lastTimePaused (interval_tick r s) = lastTimePaused s" "plays (interval_tick r s) = plays s"
  by (simp_all add: interval_tick_def)



text \<open>
  Every method keeps the condition that registered events come with a manager: the
  manager is never taken away, and \<open>events\<close> is filled by \<open>_start\<close> alone, which
  \<open>_loaded\<close> calls after storing the manager.
\<close>

lemmas flow_simps = ok_def throw_def and_then_def Let_def emit_def

lemma inv_emit [simp]: "manager_invariant (emit e s) = manager_invariant s"
  by (simp add: manager_invariant_def emit_def)

lemma inv_resizeAds [simp]: "manager_invariant (resizeAds s) = manager_invariant s"
  by (simp add: resizeAds_def)

lemma inv_requestAds [simp]: "manager_invariant (snd (requestAds s)) = manager_invariant s"
  by (simp add: requestAds_def manager_invariant_def flow_simps)

lemma inv_contentLoadedAction [simp]:
  "manager_invariant (snd (contentLoadedAction s)) = manager_invariant s"
  by (simp add: contentLoadedAction_def) (simp add: manager_invariant_def)

lemma inv_initNotDoneAds [simp]:
  "manager_invariant (snd (initNotDoneAds s)) = manager_invariant s"
  by (simp add: initNotDoneAds_def ok_def throw_def Let_def) (simp add: manager_invariant_def emit_def)

lemma inv_contentEndedListener [simp]:
  "manager_invariant (snd (contentEndedListener s)) = manager_invariant s"
  by (simp add: contentEndedListener_def manager_invariant_def flow_simps)

lemma inv_resetAdsAfterManualBreak [simp]:
  "manager_invariant (snd (resetAdsAfterManualBreak s)) = manager_invariant s"
  by (simp add: resetAdsAfterManualBreak_def manager_invariant_def flow_simps)

lemma inv_prepareMedia [simp]: "manager_invariant (prepareMedia s) = manager_invariant s"
  by (simp add: prepareMedia_def resumeMedia_def manager_invariant_def Let_def)

lemma inv_resumeMedia [simp]: "manager_invariant (resumeMedia s) = manager_invariant s"
  by (simp add: resumeMedia_def manager_invariant_def Let_def)

lemma inv_and_then:
  assumes "manager_invariant (snd r)" "\<And>s. manager_invariant s \<Longrightarrow> manager_invariant (snd (f s))"
  shows "manager_invariant (snd (and_then r f))"
  using assms by (cases r) (auto simp: and_then_def split: option.splits)

lemma inv_loadedMetadataHandler [simp]:
  "manager_invariant (snd (loadedMetadataHandler s)) = manager_invariant s"
  by (cases "ads s"; cases "el_seekable (ads_element s)")
     (auto simp: loadedMetadataHandler_def flow_simps manager_invariant_def requestAds_def
        resetAdsAfterManualBreak_def prepareMedia_def resumeMedia_def)

lemma inv_run_listener [simp]: "manager_invariant (run_listener l s) = manager_invariant s"
  by (simp add: run_listener_def split: element_listener.splits)

lemma inv_fold_listeners [simp]:
  "manager_invariant (fold run_listener ls s) = manager_invariant s"
  by (induction ls arbitrary: s) simp_all

lemma inv_dispatchEvent [simp]: "manager_invariant (dispatchEvent name s) = manager_invariant s"
  by (simp add: dispatchEvent_def run_listeners_def)

lemma inv_ads_destroy: "manager_invariant s \<Longrightarrow> manager_invariant (snd (ads_destroy s))"
  by (simp add: ads_destroy_def manager_invariant_def flow_simps)

lemma inv_ads_load [simp]: "manager_invariant (snd (ads_load force s)) = manager_invariant s"
  by (simp add: ads_load_def ok_def Let_def) (simp add: manager_invariant_def emit_def)

lemma inv_on_media [simp]: "manager_invariant (snd (on_media name f s)) = manager_invariant s"
  by (simp add: on_media_def manager_invariant_def emit_def split: prod.splits)

lemma inv_upd [simp]:
  "manager_invariant (s\<lparr>adsEnded := a1\<rparr>) = manager_invariant s"
  "manager_invariant (s\<lparr>adsDone := a2\<rparr>) = manager_invariant s"
  "manager_invariant (s\<lparr>adsActive := a3\<rparr>) = manager_invariant s"
  "manager_invariant (s\<lparr>adsStarted := a4\<rparr>) = manager_invariant s"
  "manager_invariant (s\<lparr>intervalTimer := a5\<rparr>) = manager_invariant s"
  "manager_invariant (s\<lparr>adsMuted := a6\<rparr>) = manager_invariant s"
  "manager_invariant (s\<lparr>adsDuration := a7\<rparr>) = manager_invariant s"
  "manager_invariant (s\<lparr>adsCurrentTime := a8\<rparr>) = manager_invariant s"
  "manager_invariant (s\<lparr>ads_media := a10\<rparr>) = manager_invariant s"
  "manager_invariant (s\<lparr>playTriggered := a16\<rparr>) = manager_invariant s"
  "manager_invariant (s\<lparr>currentAdsIndex := a17\<rparr>) = manager_invariant s"
  "manager_invariant (s\<lparr>preloadContent := a18\<rparr>) = manager_invariant s"
  "manager_invariant (s\<lparr>lastTimePaused := a19\<rparr>) = manager_invariant s"
  "manager_invariant (s\<lparr>ads_active_class := a21\<rparr>) = manager_invariant s"
  "manager_invariant (s\<lparr>manager_events := a22\<rparr>) = manager_invariant s"
  "manager_invariant (s\<lparr>listeners_on_element := a23\<rparr>) = manager_invariant s"
  "manager_invariant (s\<lparr>timers := a24\<rparr>) = manager_invariant s"
  "manager_invariant (s\<lparr>next_timer := a25\<rparr>) = manager_invariant s"
  by (simp_all add: manager_invariant_def)

lemma inv_onContentPauseRequested:
  "manager_invariant s \<Longrightarrow> manager_invariant (snd (onContentPauseRequested s))"
  by (auto simp: onContentPauseRequested_def ok_def Let_def intro!: inv_and_then)

lemma inv_onContentResumeRequested:
  "manager_invariant s \<Longrightarrow> manager_invariant (snd (onContentResumeRequested env s))"
  by (auto simp: onContentResumeRequested_def ok_def throw_def Let_def 
      intro!: inv_and_then inv_ads_destroy split: ads_source.splits)

lemma inv_ads_loaded: "manager_invariant (snd (ads_loaded s))"
  by (simp add: ads_loaded_def ads_start_def ok_def Let_def)
     (simp add: manager_invariant_def emit_def)

lemma inv_assign_switch:
  "manager_invariant s \<Longrightarrow> manager_invariant (snd (assign_switch env event s))"
  by (cases "ev_type event"; cases "getAd event")
     (auto simp: assign_switch_def with_ad_def assign_LOADED_def assign_STARTED_def
      assign_COMPLETE_def assign_VOLUME_MUTED_def assign_ALL_ADS_COMPLETED_def setMediaVolume_def
      ok_def throw_def Let_def intro!: inv_and_then inv_ads_destroy inv_onContentResumeRequested)

lemma inv_assign: "manager_invariant s \<Longrightarrow> manager_invariant (snd (assign env event s))"
  by (auto simp: assign_def ok_def intro!: inv_and_then inv_assign_switch)

lemma inv_ads_error: "manager_invariant s \<Longrightarrow> manager_invariant (snd (ads_error c s))"
  by (auto simp: ads_error_def ok_def Let_def intro!: inv_and_then inv_ads_destroy)

lemma inv_fold_assign:
  "manager_invariant (snd r) \<Longrightarrow>
   manager_invariant (snd (fold (\<lambda>_ r. and_then r (assign env event)) ts r))"
proof (induction ts arbitrary: r)
  case Nil then show ?case by simp
next
  case (Cons t ts)
  have "manager_invariant (snd (and_then r (assign env event)))"
    using Cons.prems by (intro inv_and_then inv_assign)
  from Cons.IH[OF this] show ?case by simp
qed

lemma inv_fire_resume:
  "manager_invariant s \<Longrightarrow> manager_invariant (snd (fire_resume env rejected s))"
proof -
  assume a: "manager_invariant s"
  obtain e s1 where o: "on_media ''play'' (play env) s = (e, s1)" by force
  then have "manager_invariant s1" using a inv_on_media[of "''play''" "play env" s] by simp
  with a o show ?thesis by (cases e) (simp_all add: fire_resume_def ok_def)
qed

lemma inv_interval_tick [simp]: "manager_invariant (interval_tick r s) = manager_invariant s"
  by (simp add: interval_tick_def)

lemma inv_step: "manager_invariant s \<Longrightarrow> manager_invariant (step env st s)"
proof (cases st)
  case (Fire p)
  assume "manager_invariant s"
  then show ?thesis using Fire
    by (cases p) (auto simp: step_def ok_def Let_def run_listeners_def intro!: inv_fire_resume)
qed (auto simp: step_def ok_def run_listeners_def
      intro!: inv_fold_assign inv_ads_error inv_ads_loaded inv_onContentPauseRequested
        inv_onContentResumeRequested)

lemma inv_run: "manager_invariant s \<Longrightarrow> manager_invariant (run_steps env sts s)"
  by (induction sts arbitrary: s) (auto intro: inv_step)

lemma inv_new: "manager_invariant (new_Ads pf m source auto autoMuted opts parent)"
  by (simp add: new_Ads_def manager_invariant_def)



text \<open>The two branches of \<open>_error\<close>.\<close>

lemma falls_back_emit [simp]: "falls_back (emit e s) = falls_back s"
  by (cases "ads s") (simp_all add: emit_def falls_back_def)

lemma error_fallback:
  assumes inv: "manager_invariant s" and fb: "falls_back s"
  shows "\<exists>tags s1 s2 s3.
      ads s = AdTags tags \<and>
      s1 = (dispatchEvent ''playererror'' s)\<lparr>currentAdsIndex := currentAdsIndex s + 1,
              playTriggered := True, adsStarted := True, adsDone := False\<rparr> \<and>
      ads_destroy s1 = (None, s2) \<and> ads_load True s2 = (None, s3) \<and>
      ads_error errorCode s = (None, emit (Console ''warn'') s3) \<and>
      currentAdsIndex s3 = currentAdsIndex s + 1 \<and> playTriggered s3 \<and> adsStarted s3 \<and>
      timers s3 = timers s \<and> ads_media s3 = ads_media s \<and>
      log s3 = log s @ [Dispatch ''playererror''] @
        (if customClick_enabled (adsOptions s) then [Dom ''remove custom click container''] else []) @
        [Dom ''remove ads container'', Dom ''create ads container''] @
        (if customClick_enabled (adsOptions s) then [Dom ''create custom click container''] else []) @
        [Sdk ''new AdDisplayContainer'', Sdk ''new AdsLoader'',
         Sdk ''adDisplayContainer.initialize'',
         Request (elem tags (currentAdsIndex s + 1))]"
proof -
  from fb obtain tags where tags: "ads s = AdTags tags" "length tags > 1"
      "currentAdsIndex s < int (length tags) - 1"
    by (auto simp: falls_back_def split: ads_source.splits)
  define s1 where "s1 = (dispatchEvent ''playererror'' s)\<lparr>currentAdsIndex := currentAdsIndex s + 1,
              playTriggered := True, adsStarted := True, adsDone := False\<rparr>"
  have d: "dispatchEvent ''playererror'' s = emit (Dispatch ''playererror'') s"
    by (simp add: dispatch_other)
  obtain e2 s2 where s2: "ads_destroy s1 = (e2, s2)" by force
  obtain e3 s3 where s3: "ads_load True s2 = (e3, s3)" by force
  from inv have nothrow: "\<not> (events s1 \<noteq> [] \<and> \<not> adsManager s1)"
    by (auto simp: s1_def d emit_def manager_invariant_def)
  have e2: "e2 = None" using s2 nothrow by (auto simp: ads_destroy_def ok_def Let_def)
  have s2_eq: "s2 = snd (ads_destroy s1)" using s2 by simp
  have e3: "e3 = None" using s3
    by (auto simp: ads_load_def requestAds_def ok_def throw_def Let_def emit_def split: if_splits)
  have s3_eq: "s3 = snd (ads_load True s2)" using s3 by simp
  have fbs: "falls_back (dispatchEvent ''playererror'' s)"
    using fb by (simp add: d)
  have idx: "currentAdsIndex (dispatchEvent ''playererror'' s) = currentAdsIndex s"
    by (simp add: d emit_def)
  have res: "ads_error errorCode s = (None, emit (Console ''warn'') s3)"
    using fbs s2 s3 e2 e3 by (simp add: ads_error_def Let_def s1_def and_then_def ok_def idx)
  have fields: "currentAdsIndex s3 = currentAdsIndex s + 1 \<and> playTriggered s3 \<and> adsStarted s3 \<and>
      timers s3 = timers s \<and> ads_media s3 = ads_media s"
    using nothrow tags
    by (simp add: s3_eq s2_eq ads_load_def ads_destroy_def requestAds_def ok_def throw_def Let_def
        emit_def) (simp add: s1_def d emit_def ok_def)
  have lg: "log s3 = log s @ [Dispatch ''playererror''] @
        (if customClick_enabled (adsOptions s) then [Dom ''remove custom click container''] else []) @
        [Dom ''remove ads container'', Dom ''create ads container''] @
        (if customClick_enabled (adsOptions s) then [Dom ''create custom click container''] else []) @
        [Sdk ''new AdDisplayContainer'', Sdk ''new AdsLoader'',
         Sdk ''adDisplayContainer.initialize'',
         Request (elem tags (currentAdsIndex s + 1))]"
    using nothrow tags
    by (simp add: s3_eq s2_eq ads_load_def ads_destroy_def requestAds_def ok_def throw_def Let_def
        emit_def current_tag_def) (simp add: s1_def d emit_def ok_def)
  from tags s1_def s2 s3 e2 e3 res fields lg show ?thesis by blast
qed

lemma error_no_fallback:
  assumes nfb: "\<not> falls_back s"
  shows "fst (ads_error errorCode s) = None \<and>
     currentAdsIndex (snd (ads_error errorCode s)) = currentAdsIndex s \<and>
     log (snd (ads_error errorCode s)) = log s @ [Dispatch ''playererror''] @
       (if errorCode \<in> set fatalErrorCodes
        then (if adsManager s then [Sdk ''adsManager.destroy''] else []) @ [Console ''error'']
        else [Console ''warn'']) \<and>
     (if autoStart s \<or> autoStartMuted s \<or> adsStarted s
      then timers (snd (ads_error errorCode s)) = timers s @ [Resume (get_ended (ads_media s))] \<and>
           \<not> adsActive (snd (ads_error errorCode s))
      else timers (snd (ads_error errorCode s)) = timers s \<and>
           adsActive (snd (ads_error errorCode s)) = adsActive s)"
proof -
  have d: "dispatchEvent ''playererror'' s = emit (Dispatch ''playererror'') s"
    by (simp add: dispatch_other)
  have nfbs: "\<not> falls_back (emit (Dispatch ''playererror'') s)"
    using nfb by simp
  show ?thesis
    using nfbs
    by (simp add: ads_error_def d Let_def ok_def resumeMedia_def) (simp add: emit_def)
qed

text \<open>
  Claim C3.  In every state that the component reaches from its constructor,
  \<open>_error\<close> with an array of more than one ad tag and the index below the last
  position falls back to the next tag: the index grows by exactly one, play is
  marked as triggered and the ads as started and not done, then \<open>destroy\<close> and
  \<open>load(true)\<close> run without an exception (the reload initialises the display
  container, which it does only for ads that are not done, and requests the tag at
  the new index), and no resume of the content is scheduled and the facade is not
  touched.  In every other case the index stays, the ads manager is destroyed exactly
  for a fatal error code (when there is a manager), and the content is resumed, with
  \<open>adsActive\<close> cleared, exactly when \<open>autoStart\<close>, \<open>autoStartMuted\<close> or \<open>adsStarted\<close>
  is set.
\<close>

theorem error_falls_back_or_resumes:
  assumes "s = run_steps env sts (new_Ads pf m source auto autoMuted opts parent)"
  shows
    "(falls_back s \<longrightarrow>
       (\<exists>tags s1 s2 s3.
          ads s = AdTags tags \<and>
          s1 = (dispatchEvent ''playererror'' s)\<lparr>currentAdsIndex := currentAdsIndex s + 1,
                  playTriggered := True, adsStarted := True, adsDone := False\<rparr> \<and>
          ads_destroy s1 = (None, s2) \<and> ads_load True s2 = (None, s3) \<and>
          ads_error errorCode s = (None, emit (Console ''warn'') s3) \<and>
          currentAdsIndex s3 = currentAdsIndex s + 1 \<and> playTriggered s3 \<and> adsStarted s3 \<and>
          timers s3 = timers s \<and> ads_media s3 = ads_media s \<and>
          log s3 = log s @ [Dispatch ''playererror''] @
            (if customClick_enabled (adsOptions s)
             then [Dom ''remove custom click container''] else []) @
            [Dom ''remove ads container'', Dom ''create ads container''] @
            (if customClick_enabled (adsOptions s)
             then [Dom ''create custom click container''] else []) @
            [Sdk ''new AdDisplayContainer'', Sdk ''new AdsLoader'',
             Sdk ''adDisplayContainer.initialize'',
             Request (elem tags (currentAdsIndex s + 1))])) \<and>
     (\<not> falls_back s \<longrightarrow>
        fst (ads_error errorCode s) = None \<and>
        currentAdsIndex (snd (ads_error errorCode s)) = currentAdsIndex s \<and>
        log (snd (ads_error errorCode s)) = log s @ [Dispatch ''playererror''] @
          (if errorCode \<in> set fatalErrorCodes
           then (if adsManager s then [Sdk ''adsManager.destroy''] else []) @ [Console ''error'']
           else [Console ''warn'']) \<and>
        (if autoStart s \<or> autoStartMuted s \<or> adsStarted s
         then timers (snd (ads_error errorCode s)) =
                timers s @ [Resume (get_ended (ads_media s))] \<and>
              \<not> adsActive (snd (ads_error errorCode s))
         else timers (snd (ads_error errorCode s)) = timers s \<and>
              adsActive (snd (ads_error errorCode s)) = adsActive s))"
proof -
  have inv: "manager_invariant s"
    unfolding assms by (rule inv_run[OF inv_new])
  show ?thesis
    using error_fallback[OF inv, of errorCode] error_no_fallback[of s errorCode]
    by blast
qed

theorem error_falls_back_or_resumes_witness:
  "falls_back (run_steps sample_env [Fire SdkReady] (sample_ads (AdTags [''a'', ''b'']))) \<and>
   fst (ads_error 400 (run_steps sample_env [Fire SdkReady]
          (sample_ads (AdTags [''a'', ''b''])))) = None \<and>
   \<not> falls_back (run_steps sample_env [Fire SdkReady] (sample_ads (AdTag ''tag''))) \<and>
   currentAdsIndex (snd (ads_error 400 (run_steps sample_env [Fire SdkReady]
          (sample_ads (AdTag ''tag''))))) =
     currentAdsIndex (run_steps sample_env [Fire SdkReady] (sample_ads (AdTag ''tag'')))"
proof -
  let ?A = "run_steps sample_env [Fire SdkReady] (sample_ads (AdTags [''a'', ''b'']))"
  let ?B = "run_steps sample_env [Fire SdkReady] (sample_ads (AdTag ''tag''))"
  have fa: "falls_back ?A" by code_simp
  have fb: "\<not> falls_back ?B" by code_simp
  have a: "?A = run_steps sample_env [Fire SdkReady]
      (new_Ads desktop sample_media (AdTags [''a'', ''b'']) True False sample_ads_options True)"
    by (simp add: sample_ads_def)
  have b: "?B = run_steps sample_env [Fire SdkReady]
      (new_Ads desktop sample_media (AdTag ''tag'') True False sample_ads_options True)"
    by (simp add: sample_ads_def)
  from error_falls_back_or_resumes[OF a, of 400] fa
  have "fst (ads_error 400 ?A) = None" by auto
  moreover from error_falls_back_or_resumes[OF b, of 400] fb
  have "currentAdsIndex (snd (ads_error 400 ?B)) = currentAdsIndex ?B" by blast
  ultimately show ?thesis using fa fb by blast
qed







subsection \<open>The fullscreen control\<close>

text \<open>
  Claim C6 says that \<open>destroy\<close> removes every listener that \<open>create\<close> registered, so
  that none remains attached after \<open>create\<close> followed by \<open>destroy\<close>.  In the code each
  \<open>removeEventListener\<close> is given a function object made on the spot by \<open>bind\<close> or by
  an arrow function, which is never the object that was registered.  On an iPhone,
  starting from a page without listeners, all eight listeners of \<open>create\<close> are still
  attached after \<open>destroy\<close>: one on the container, four on the document, one on the
  button, two on the media element.
\<close>

theorem destroy_leaves_listeners_attached:
  "(case destroy_fullscreen (create (new_Fullscreen True)) of
      Inl e \<Rightarrow> False
    | Inr s \<Rightarrow>
        all_listeners s = all_listeners (create (new_Fullscreen True)) \<and>
        map fst (container_listeners s) = [''keydown''] \<and>
        map fst (document_listeners s) =
          [''fullscreenchange'', ''mozfullscreenchange'', ''webkitfullscreenchange'',
           ''msfullscreenchange''] \<and>
        map fst (button_listeners s) = [''click''] \<and>
        map fst (element_listeners s) = [''webkitbeginfullscreen'', ''webkitendfullscreen''])"
  by (simp add: destroy_fullscreen_def create_def new_Fullscreen_def new_fn_def
      setFullscreenData_def addEventListener_def removeEventListener_def all_listeners_def
      Let_def)

subsection \<open>The caption sanitiser\<close>

text \<open>
  Claim C10 says that for every caption text the output of \<open>_sanitize\<close> is free of
  \<open>script\<close> elements, of attributes that start with \<open>on\<close> or \<open>javascript:\<close> and of
  \<open>style\<close> attributes.  For the text \<open><b onclick="x"></b><i>hi</i>\<close> there is no
  output: the second loop takes \<open><b>\<close> out, the live collection shrinks to one
  element, and at \<open>index = 1\<close>, which is still below the length read before the loop,
  \<open>allElements[index]\<close> is \<open>undefined\<close> and reading its \<open>attributes\<close> throws.  This
  holds whether \<open>removeElement\<close> tolerates \<open>undefined\<close> or not.
\<close>

theorem sanitize_throws_on_event_attribute:
  "sanitize True [Element ''b'' [(''onclick'', ''x'')] [], Element ''i'' [] [Text ''hi'']]
     = Inl (TypeError ''allElements[index] is undefined'') \<and>
   sanitize False [Element ''b'' [(''onclick'', ''x'')] [], Element ''i'' [] [Text ''hi'']]
     = Inl (TypeError ''allElements[index] is undefined'')"
  by (simp add: sanitize_def getElementsByTagName_def matches_tag_def item_def
      removeElement_def on_or_javascript_def Let_def)


end
